theory Spec2Isabelle
  imports Main "HOL-Library.AList"
begin

section \<open>Data model of the wallet sagas\<close>

text \<open>
  The sagas of the wallet module are generators that yield effects to the saga runtime.
  A run of a saga is modelled by the list of effects it yields, in order, together with
  the way the run ends.  Everything a saga reads from a collaborator (the facade, the
  redux state, the feature-flag provider, the token registry) is an explicit argument.
\<close>

type_synonym tokenId = string

text \<open>The JSON document of a token's metadata.\<close>
type_synonym metadata = string

text \<open>A registered token descriptor, as \<open>tokensUtils.getTokens()\<close> and \<open>state.tokens\<close> hold it.\<close>
record token_descr =
  uid :: tokenId
  name :: string
  symbol :: string

text \<open>The payload of \<open>START_WALLET_REQUESTED\<close> (the router history object is left out).\<close>
record start_payload =
  words :: "string option"
  passphrase :: string
  pin :: string
  password :: string
  fromXpriv :: bool
  xpub :: "string option"

record server_info =
  version :: string
  network :: string

datatype backend = HathorWallet | HathorWalletServiceWallet

text \<open>
  The redux actions the sagas dispatch, named after their action creators.  The second
  argument of \<open>tokenFetchBalanceRequested\<close> is the force flag; a call that omits it
  passes \<open>False\<close>.
\<close>
datatype action =
    loadingAddresses bool
  | storeRouterHistory
  | reloadData "token_descr list"
  | isOnlineUpdate bool
  | setUseWalletService bool
  | setWallet backend
  | setServerInfo "string option" string
  | startWalletFailed
  | loadWalletSuccess "tokenId list"
  | START_WALLET_REQUESTED start_payload
  | tokenFetchBalanceRequested tokenId bool
  | tokenFetchHistoryRequested tokenId bool
  | TOKEN_FETCH_METADATA_REQUESTED tokenId
  | metadataLoaded bool
  | tokenMetadataUpdated "(tokenId \<times> metadata) list" "tokenId list"
  | reloadWalletRequested
  | walletStateError
  | walletStateReady
  | tokenInvalidateHistory tokenId
  | sharedAddressUpdate string nat
  | walletRefreshSharedAddress

datatype saga = setupWalletListeners_saga | listenForWalletReady_saga | listenForFeatureFlags_saga

datatype callee =
    shouldUseWalletService_call
  | wallet_start
  | ignoreWalletServiceFlag
  | fetchTokenData tokenId
  | wallet_getTokens
  | wallet_getNewAddresses

text \<open>
  The effects a saga yields and the synchronous side effects it performs between them.
  \<open>Cancel\<close> carries the thread group; \<open>Cancel []\<close> is the self-cancellation
  \<open>yield cancel()\<close>.  \<open>Put_dispatch_thunk\<close> is the \<open>put\<close> of the function that
  hands \<open>dispatch\<close> to the saga.
\<close>
datatype effect =
    Put action
  | Put_dispatch_thunk
  | Call callee
  | Fork saga
  | Spawn_fetchTokensMetadata "tokenId list"
  | Cancel "saga list"
  | Take_WALLET_STATE_READY
  | Race_ready_error
  | Race_start_reload
  | Channel_close
  | unlock
  | cleanLoadedData bool
  | routerHistory_replace string
  | sendNotification string

text \<open>How a run ends: the generator returns, an exception leaves it, or it stays suspended.\<close>
datatype 'a outcome = Returned 'a | Raised | Blocked

text \<open>The result of an external call.\<close>
datatype 'a call_result = Returns 'a | Throws

section \<open>Feature-flag watcher\<close>

text \<open>
  One turn of the loop of \<open>listenForFeatureFlags\<close>: \<open>newUseWalletService\<close> is the
  value taken from the channel, \<open>oldUseWalletService\<close> is \<open>state.useWalletService\<close>
  (\<open>None\<close> when nothing was recorded).  The guard is
  \<open>oldUseWalletService && oldUseWalletService !== newUseWalletService\<close>.
\<close>
definition truthy :: "bool option \<Rightarrow> bool" where
  "truthy v = (case v of None \<Rightarrow> False | Some b \<Rightarrow> b)"

definition listenForFeatureFlags_turn :: "bool option \<Rightarrow> bool \<Rightarrow> effect list" where
  "listenForFeatureFlags_turn oldUseWalletService newUseWalletService =
     (if truthy oldUseWalletService \<and> oldUseWalletService \<noteq> Some newUseWalletService
      then [Put reloadWalletRequested] else [])"

text \<open>
  The loop over the change events observed so far; each event comes with the value of
  \<open>state.useWalletService\<close> selected in that turn.
\<close>
fun listenForFeatureFlags :: "(bool \<times> bool option) list \<Rightarrow> effect list" where
  "listenForFeatureFlags [] = []"
| "listenForFeatureFlags ((newUseWalletService, oldUseWalletService) # rest) =
     listenForFeatureFlags_turn oldUseWalletService newUseWalletService
     @ listenForFeatureFlags rest"

section \<open>Best-block handler\<close>

text \<open>
  \<open>bestBlockUpdate\<close>: \<open>currentHeight\<close> is \<open>state.height\<close>, \<open>isReady\<close> the answer of
  \<open>wallet.isReady()\<close>, \<open>payload\<close> the reported height.  The uid of the base-currency
  token (\<open>HATHOR_TOKEN_CONFIG.uid\<close> of the wallet library) is the parameter \<open>htrUid\<close>.
\<close>
definition bestBlockUpdate :: "tokenId \<Rightarrow> nat \<Rightarrow> bool \<Rightarrow> nat \<Rightarrow> effect list" where
  "bestBlockUpdate htrUid currentHeight isReady payload =
     (if \<not> isReady then []
      else if currentHeight \<noteq> payload then [Put (tokenFetchBalanceRequested htrUid False)]
      else [])"

section \<open>Readiness watcher\<close>

text \<open>
  The loop of \<open>listenForWalletReady\<close> over the state events that arrive on its channel,
  in order.  An event is the state \<open>message\<close> together with the answer \<open>wallet.isReady()\<close>
  gives when that event is handled.  \<open>ERROR\<close> is the constant \<open>HathorWallet.ERROR\<close> of
  the wallet library.  After \<open>yield cancel()\<close> the generator runs its \<open>finally\<close> block,
  where \<open>cancelled()\<close> holds and the channel is closed.  A run that has consumed every
  event without stopping is suspended in \<open>take(channel)\<close>.
\<close>
fun listenForWalletReady :: "nat \<Rightarrow> (nat \<times> bool) list \<Rightarrow> effect list \<times> unit outcome" where
  "listenForWalletReady ERROR [] = ([], Blocked)"
| "listenForWalletReady ERROR ((message, isReady) # rest) =
     (if message = ERROR then
        ([Put walletStateError, Cancel [], Channel_close], Returned ())
      else if isReady then
        ([Put walletStateReady, Cancel [], Channel_close], Returned ())
      else listenForWalletReady ERROR rest)"

section \<open>Metadata aggregation\<close>

datatype response_type = TOKEN_FETCH_METADATA_SUCCESS | TOKEN_FETCH_METADATA_FAILED

text \<open>
  A response taken by \<open>fetchTokensMetadata\<close>; \<open>data\<close> is \<open>None\<close> when the request
  returned null (no metadata for the token).
\<close>
record response =
  rtype :: response_type
  tokenId :: tokenId
  data :: "metadata option"

text \<open>
  The loop over the responses.  \<open>tokenMetadatas\<close> is the object built by
  \<open>tokenMetadatas[response.tokenId] = response.data\<close>: an assignment to a key that is
  present replaces its value in place, a new key is added at the end.
\<close>
fun aggregate :: "response list \<Rightarrow> (tokenId \<times> metadata) list \<times> tokenId list
    \<Rightarrow> (tokenId \<times> metadata) list \<times> tokenId list" where
  "aggregate [] (tokenMetadatas, errors) = (tokenMetadatas, errors)"
| "aggregate (response # rest) (tokenMetadatas, errors) =
     (if rtype response = TOKEN_FETCH_METADATA_FAILED then
        aggregate rest (tokenMetadatas, errors @ [tokenId response])
      else if rtype response = TOKEN_FETCH_METADATA_SUCCESS then
        (case data response of
           Some d \<Rightarrow> aggregate rest (AList.update (tokenId response) d tokenMetadatas, errors)
         | None \<Rightarrow> aggregate rest (tokenMetadatas, errors))
      else aggregate rest (tokenMetadatas, errors))"

text \<open>
  \<open>fetchTokensMetadata\<close>: \<open>responses\<close> is what \<open>yield all(tokens.map(take ...))\<close>
  returns, one response for each entry of \<open>tokens\<close> in the same order, or \<open>None\<close> when
  some response never arrives and the saga stays suspended.
\<close>
definition fetchTokensMetadata :: "tokenId list \<Rightarrow> response list option
    \<Rightarrow> effect list \<times> unit outcome" where
  "fetchTokensMetadata tokens responses =
     (if length tokens = 0 then ([Put (metadataLoaded True)], Returned ())
      else
        let requests = Put (metadataLoaded False)
              # map (\<lambda>token. Put (TOKEN_FETCH_METADATA_REQUESTED token)) tokens
        in case responses of
             None \<Rightarrow> (requests, Blocked)
           | Some rs \<Rightarrow>
               (case aggregate rs ([], []) of
                  (tokenMetadatas, errors) \<Rightarrow>
                    (requests @ [Put (tokenMetadataUpdated tokenMetadatas errors)],
                     Returned ())))"

section \<open>Transaction handler\<close>

record tx_io =
  token :: tokenId

record tx =
  tx_id :: string
  inputs :: "tx_io list"
  outputs :: "tx_io list"

text \<open>A JavaScript \<open>Set\<close> as the list of its elements in insertion order.\<close>
definition Set_add :: "'a \<Rightarrow> 'a list \<Rightarrow> 'a list" where
  "Set_add x s = (if x \<in> set s then s else s @ [x])"

definition affectedTokens :: "tx \<Rightarrow> tokenId list" where
  "affectedTokens t =
     foldl (\<lambda>s input. Set_add (token input) s)
       (foldl (\<lambda>s output. Set_add (token output) s) [] (outputs t))
       (inputs t)"

fun indexOf :: "'a list \<Rightarrow> 'a \<Rightarrow> int" where
  "indexOf [] x = -1"
| "indexOf (y # ys) x =
     (if y = x then 0 else (let i = indexOf ys x in if i = -1 then -1 else i + 1))"

text \<open>The final loop of \<open>handleTx\<close> over the affected tokens.\<close>
fun refetch_loop :: "tokenId list \<Rightarrow> tokenId list \<Rightarrow> effect list" where
  "refetch_loop registeredTokens [] = []"
| "refetch_loop registeredTokens (tokenUid # rest) =
     (if indexOf registeredTokens tokenUid = -1 then refetch_loop registeredTokens rest
      else Put (tokenFetchBalanceRequested tokenUid True)
         # Put (tokenFetchHistoryRequested tokenUid True)
         # refetch_loop registeredTokens rest)"

text \<open>
  \<open>handleTx\<close>: \<open>isReady\<close> is the answer of \<open>wallet.isReady()\<close>, \<open>isBlock\<close> that of
  \<open>helpers.isBlock(tx)\<close>, \<open>stateTokens\<close> is \<open>state.tokens\<close> and \<open>newAddress\<close> the
  address and index that \<open>wallet.getCurrentAddress()\<close> returns.
\<close>
definition handleTx :: "bool \<Rightarrow> bool \<Rightarrow> tx \<Rightarrow> token_descr list \<Rightarrow> string \<times> nat \<Rightarrow> effect list" where
  "handleTx isReady isBlock t stateTokens newAddress =
     (if \<not> isReady then []
      else
        let registeredTokens = map uid stateTokens;
            message = (if isBlock then ''You've found a new block! Click to open it.''
                       else ''You've received a new transaction! Click to open it.'')
        in sendNotification message
           # Put (sharedAddressUpdate (fst newAddress) (snd newAddress))
           # refetch_loop registeredTokens (affectedTokens t))"

section \<open>Token loader\<close>

text \<open>
  What \<open>loadTokens\<close> gets from its collaborators: whether \<open>fetchTokenData\<close> and
  \<open>wallet.getTokens()\<close> return or throw, and the registry \<open>tokensUtils.getTokens()\<close>.
\<close>
record load_env =
  fetchTokenData_result :: "unit call_result"
  getTokens_result :: "tokenId list call_result"
  storageTokens :: "token_descr list"

definition loadTokens :: "tokenId \<Rightarrow> load_env
    \<Rightarrow> effect list \<times> (tokenId list \<times> tokenId list) outcome" where
  "loadTokens htrUid env =
     (case fetchTokenData_result env of
        Throws \<Rightarrow> ([Call (fetchTokenData htrUid)], Raised)
      | Returns _ \<Rightarrow>
          (case getTokens_result env of
             Throws \<Rightarrow> ([Call (fetchTokenData htrUid), Call wallet_getTokens], Raised)
           | Returns allTokens \<Rightarrow>
               (let registeredTokens =
                      foldl (\<lambda>acc token. if uid token = htrUid then acc else acc @ [uid token])
                        [] (storageTokens env)
                in ([Call (fetchTokenData htrUid), Call wallet_getTokens,
                     Spawn_fetchTokensMetadata registeredTokens]
                    @ map (\<lambda>token. Put (tokenFetchBalanceRequested token False)) allTokens,
                    Returned (allTokens, registeredTokens)))))"

text \<open>The effects \<open>t\<close> followed by the run \<open>r\<close>.\<close>
definition then_run :: "effect list \<Rightarrow> effect list \<times> 'a outcome \<Rightarrow> effect list \<times> 'a outcome" where
  "then_run t r = (t @ fst r, snd r)"

section \<open>Lifecycle orchestrator\<close>

datatype signal = Ready_signal | Error_signal | No_signal

datatype request = Start_request | Reload_request | No_request

text \<open>
  What one run of \<open>startWallet\<close> gets from its collaborators: the registry, the network
  name, whether the wallet is a hardware wallet, the answer of
  \<open>featureFlags.shouldUseWalletService()\<close>, whether \<open>wallet.start\<close> returns (with or
  without server info) or throws, the answer of \<open>wallet.isReady()\<close> after the start
  call, which of \<open>WALLET_STATE_READY\<close> and \<open>WALLET_STATE_ERROR\<close> wins the first race
  (if any arrives), the collaborators of \<open>loadTokens\<close>, and which request wins the
  final race (if any arrives).
\<close>
record start_env =
  registeredTokens :: "token_descr list"
  networkName :: string
  hardwareWallet :: bool
  shouldUseWalletService :: bool
  start_result :: "server_info option call_result"
  isReady_after_start :: bool
  readiness :: signal
  tokens_env :: load_env
  parked :: request

text \<open>The thread group: the three forked tasks, in the order of the array \<open>threads\<close>.\<close>
definition threads :: "saga list" where
  "threads = [setupWalletListeners_saga, listenForWalletReady_saga, listenForFeatureFlags_saga]"

definition startWallet_useWalletService :: "start_env \<Rightarrow> bool" where
  "startWallet_useWalletService env =
     (if hardwareWallet env then False else shouldUseWalletService env)"

text \<open>
  The saga up to the array \<open>threads\<close>: everything before the \<open>try\<close> around the
  start call.  Building the facade and its connection and setting the service URLs yield
  no effect and are left out; the backend built is the argument of \<open>setWallet\<close>.
\<close>
definition startWallet_setup :: "start_payload \<Rightarrow> start_env \<Rightarrow> effect list" where
  "startWallet_setup payload env =
     (let useWalletService = startWallet_useWalletService env
      in [Put (loadingAddresses True), Put storeRouterHistory, unlock,
          Put (reloadData (registeredTokens env)), Put (isOnlineUpdate False)]
         @ (if hardwareWallet env then [] else [Call shouldUseWalletService_call])
         @ [Put (setUseWalletService useWalletService),
            Put_dispatch_thunk,
            cleanLoadedData (\<not> fromXpriv payload),
            Put (setWallet (if useWalletService then HathorWalletServiceWallet else HathorWallet)),
            Fork setupWalletListeners_saga,
            Fork listenForWalletReady_saga,
            Fork listenForFeatureFlags_saga])"

text \<open>From the \<open>try\<close> around \<open>loadTokens\<close> to the end of the saga.\<close>
definition startWallet_load :: "tokenId \<Rightarrow> start_payload \<Rightarrow> start_env
    \<Rightarrow> effect list \<times> unit outcome" where
  "startWallet_load htrUid payload env =
     (case loadTokens htrUid (tokens_env env) of
        (lt, Raised) \<Rightarrow> (lt @ [Put startWalletFailed, Cancel threads], Returned ())
      | (lt, Blocked) \<Rightarrow> (lt, Blocked)
      | (lt, Returned (allTokens, registered)) \<Rightarrow>
          (let t = lt @ [Put (loadWalletSuccess allTokens), routerHistory_replace ''/wallet/'',
                         Put (loadingAddresses False), Race_start_reload]
           in case parked env of
                No_request \<Rightarrow> (t, Blocked)
              | Start_request \<Rightarrow> (t @ [Cancel threads], Returned ())
              | Reload_request \<Rightarrow>
                  (t @ [Cancel threads, Put (START_WALLET_REQUESTED payload)], Returned ())))"

text \<open>From \<open>routerHistory.replace('/loading_addresses')\<close> on: the wait for readiness.\<close>
definition startWallet_wait :: "tokenId \<Rightarrow> start_payload \<Rightarrow> start_env
    \<Rightarrow> effect list \<times> unit outcome" where
  "startWallet_wait htrUid payload env =
     (if \<not> isReady_after_start env then
        (case readiness env of
           No_signal \<Rightarrow>
             ([routerHistory_replace ''/loading_addresses'', Race_ready_error], Blocked)
         | Error_signal \<Rightarrow>
             ([routerHistory_replace ''/loading_addresses'', Race_ready_error,
               Put startWalletFailed, Cancel threads], Returned ())
         | Ready_signal \<Rightarrow>
             then_run [routerHistory_replace ''/loading_addresses'', Race_ready_error]
               (startWallet_load htrUid payload env))
      else then_run [routerHistory_replace ''/loading_addresses'']
             (startWallet_load htrUid payload env))"

text \<open>
  \<open>startWallet\<close>.  The \<open>catch\<close> around the start call has a branch for
  \<open>useWalletService\<close> only; with the other backend the exception is dropped and the saga
  goes on after the \<open>try\<close>.
\<close>
definition startWallet :: "tokenId \<Rightarrow> start_payload \<Rightarrow> start_env
    \<Rightarrow> effect list \<times> unit outcome" where
  "startWallet htrUid payload env =
     (let useWalletService = startWallet_useWalletService env;
          setup = startWallet_setup payload env @ [Call wallet_start]
      in case start_result env of
           Returns serverInfo \<Rightarrow>
             then_run
               (setup @ [Put (case serverInfo of
                                Some info \<Rightarrow> setServerInfo (Some (version info)) (network info)
                              | None \<Rightarrow> setServerInfo None (networkName env))])
               (startWallet_wait htrUid payload env)
         | Throws \<Rightarrow>
             if useWalletService then
               (setup @ [Call ignoreWalletServiceFlag, Cancel threads,
                         Put (START_WALLET_REQUESTED payload)], Returned ())
             else then_run setup (startWallet_wait htrUid payload env))"

section \<open>Reload coordinator\<close>

text \<open>
  What one run of \<open>walletReloading\<close> gets: \<open>state.useWalletService\<close>, whether
  \<open>WALLET_STATE_READY\<close> arrives while it waits, the collaborators of \<open>loadTokens\<close>, and
  whether \<open>wallet.getNewAddresses()\<close> and \<open>routerHistory.replace\<close> return or throw.
\<close>
record reload_env =
  useWalletService :: bool
  ready_arrives :: bool
  reload_tokens_env :: load_env
  getNewAddresses_result :: "unit call_result"
  replace_result :: "unit call_result"

text \<open>The loop that invalidates the token histories.\<close>
fun invalidate_loop :: "tokenId \<Rightarrow> tokenId list \<Rightarrow> effect list" where
  "invalidate_loop htrUid [] = []"
| "invalidate_loop htrUid (tokenUid # rest) =
     (if tokenUid = htrUid then invalidate_loop htrUid rest
      else Put (tokenInvalidateHistory tokenUid) # invalidate_loop htrUid rest)"

text \<open>The end of the \<open>try\<close> block, from \<open>walletRefreshSharedAddress\<close> on.\<close>
definition walletReloading_finish :: "tokenId list \<Rightarrow> reload_env \<Rightarrow> effect list \<times> unit outcome" where
  "walletReloading_finish allTokens env =
     (case replace_result env of
        Throws \<Rightarrow>
          ([Put walletRefreshSharedAddress, Put (loadWalletSuccess allTokens),
            routerHistory_replace ''/wallet/'', Put startWalletFailed], Returned ())
      | Returns _ \<Rightarrow>
          ([Put walletRefreshSharedAddress, Put (loadWalletSuccess allTokens),
            routerHistory_replace ''/wallet/'', Put (loadingAddresses False)], Returned ()))"

text \<open>The \<open>try\<close> block and its \<open>catch\<close>.\<close>
definition walletReloading_try :: "tokenId \<Rightarrow> reload_env \<Rightarrow> effect list \<times> unit outcome" where
  "walletReloading_try htrUid env =
     (case loadTokens htrUid (reload_tokens_env env) of
        (lt, Raised) \<Rightarrow> (lt @ [Put startWalletFailed], Returned ())
      | (lt, Blocked) \<Rightarrow> (lt, Blocked)
      | (lt, Returned (allTokens, registered)) \<Rightarrow>
          (let t = lt @ invalidate_loop htrUid allTokens
           in if useWalletService env then
                (case getNewAddresses_result env of
                   Throws \<Rightarrow>
                     (t @ [Call wallet_getNewAddresses, Put startWalletFailed], Returned ())
                 | Returns _ \<Rightarrow>
                     then_run (t @ [Call wallet_getNewAddresses])
                       (walletReloading_finish allTokens env))
              else then_run t (walletReloading_finish allTokens env)))"

definition walletReloading :: "tokenId \<Rightarrow> reload_env \<Rightarrow> effect list \<times> unit outcome" where
  "walletReloading htrUid env =
     (if \<not> useWalletService env then
        (if ready_arrives env then
           then_run [Put (loadingAddresses True), Fork listenForWalletReady_saga,
                     Take_WALLET_STATE_READY]
             (walletReloading_try htrUid env)
         else ([Put (loadingAddresses True), Fork listenForWalletReady_saga,
                Take_WALLET_STATE_READY], Blocked))
      else then_run [Put (loadingAddresses True)] (walletReloading_try htrUid env))"

section \<open>Event emitters, channels and tasks\<close>

text \<open>
  The wallet facade, its connection and the feature-flag provider are event emitters.  An
  emitter keeps the functions registered for each event, and \<open>removeListener\<close> removes a
  function by identity: it removes the most recently added registration of that very
  function object for that event, and nothing when that function is not registered.  A
  function object is identified by the number of the closure creation that made it; only
  the closures handed to \<open>on\<close> or \<open>removeListener\<close> are numbered.
\<close>
type_synonym fn = nat

datatype emitter = Wallet | Conn | FeatureFlags

type_synonym registration = "emitter \<times> string \<times> fn"

record world =
  listeners :: "registration list"
  next_fn :: nat

definition new_function :: "world \<Rightarrow> fn \<times> world" where
  "new_function w = (next_fn w, w\<lparr>next_fn := Suc (next_fn w)\<rparr>)"

definition emitter_on :: "emitter \<Rightarrow> string \<Rightarrow> fn \<Rightarrow> world \<Rightarrow> world" where
  "emitter_on em ev f w = w\<lparr>listeners := listeners w @ [(em, ev, f)]\<rparr>"

definition removeListener :: "emitter \<Rightarrow> string \<Rightarrow> fn \<Rightarrow> world \<Rightarrow> world" where
  "removeListener em ev f w =
     w\<lparr>listeners := rev (remove1 (em, ev, f) (rev (listeners w)))\<rparr>"

text \<open>
  An event channel: \<open>unsubscribe\<close> is the function the subscriber returned, given by the
  \<open>removeListener\<close> calls it makes, in order.  \<open>close\<close> runs it once; closing a closed
  channel does nothing.
\<close>
record channel =
  closed :: bool
  unsubscribe :: "registration list"

definition channel_close :: "channel \<Rightarrow> world \<Rightarrow> channel \<times> world" where
  "channel_close ch w =
     (if closed ch then (ch, w)
      else (ch\<lparr>closed := True\<rparr>,
            foldl (\<lambda>w (em, ev, f). removeListener em ev f w) w (unsubscribe ch)))"

text \<open>
  A forked listener task with its channel.  \<open>installed\<close> lists the registrations the
  task made when it was forked; the code keeps no such list, it is here to state what
  cancellation leaves behind.
\<close>
record task =
  chan :: channel
  running :: bool
  installed :: "registration list"

text \<open>
  The subscriber of \<open>setupWalletListeners\<close>: it creates \<open>listener\<close>, registers a fresh
  arrow function for each of the six events, and returns the function that removes
  \<open>listener\<close> from each of them.
\<close>
definition setupWalletListeners_fork :: "world \<Rightarrow> task \<times> world" where
  "setupWalletListeners_fork w0 =
     (let (listener, w) = new_function w0;
          (f1, w) = new_function w; w = emitter_on Conn ''best-block-update'' f1 w;
          (f2, w) = new_function w; w = emitter_on Conn ''wallet-load-partial-update'' f2 w;
          (f3, w) = new_function w; w = emitter_on Conn ''state'' f3 w;
          (f4, w) = new_function w; w = emitter_on Wallet ''reload-data'' f4 w;
          (f5, w) = new_function w; w = emitter_on Wallet ''update-tx'' f5 w;
          (f6, w) = new_function w; w = emitter_on Wallet ''new-tx'' f6 w
      in (\<lparr>chan = \<lparr>closed = False,
                   unsubscribe =
                     [(Conn, ''best-block-update'', listener),
                      (Conn, ''wallet-load-partial-update'', listener),
                      (Conn, ''state'', listener),
                      (Wallet, ''reload-data'', listener),
                      (Wallet, ''update-tx'', listener),
                      (Wallet, ''new-tx'', listener)]\<rparr>,
           running = True,
           installed =
             [(Conn, ''best-block-update'', f1),
              (Conn, ''wallet-load-partial-update'', f2),
              (Conn, ''state'', f3),
              (Wallet, ''reload-data'', f4),
              (Wallet, ''update-tx'', f5),
              (Wallet, ''new-tx'', f6)]\<rparr>, w))"

text \<open>The subscriber of \<open>listenForWalletReady\<close>.\<close>
definition listenForWalletReady_fork :: "world \<Rightarrow> task \<times> world" where
  "listenForWalletReady_fork w0 =
     (let (listener, w) = new_function w0;
          (f1, w) = new_function w; w = emitter_on Wallet ''state'' f1 w
      in (\<lparr>chan = \<lparr>closed = False, unsubscribe = [(Wallet, ''state'', listener)]\<rparr>,
           running = True,
           installed = [(Wallet, ''state'', f1)]\<rparr>, w))"

text \<open>
  The subscriber of \<open>listenForFeatureFlags\<close>.  It registers for the event named by the
  constant \<open>FeatureFlagEvents.WALLET_SERVICE_ENABLED\<close> of the module \<open>featureFlags\<close>, the
  parameter \<open>WALLET_SERVICE_ENABLED\<close>, and removes from \<open>'wallet-service-enabled'\<close>.
\<close>
definition listenForFeatureFlags_fork :: "string \<Rightarrow> world \<Rightarrow> task \<times> world" where
  "listenForFeatureFlags_fork WALLET_SERVICE_ENABLED w0 =
     (let (listener, w) = new_function w0;
          (f1, w) = new_function w; w = emitter_on FeatureFlags WALLET_SERVICE_ENABLED f1 w
      in (\<lparr>chan = \<lparr>closed = False,
                   unsubscribe = [(FeatureFlags, ''wallet-service-enabled'', listener)]\<rparr>,
           running = True,
           installed = [(FeatureFlags, WALLET_SERVICE_ENABLED, f1)]\<rparr>, w))"

text \<open>
  Cancelling a running task runs its \<open>finally\<close> block with \<open>cancelled()\<close> true, which
  closes the channel; cancelling a task that has ended does nothing.
\<close>
definition cancel_task :: "task \<Rightarrow> world \<Rightarrow> task \<times> world" where
  "cancel_task t w =
     (if running t then
        (case channel_close (chan t) w of
           (ch, w') \<Rightarrow> (t\<lparr>chan := ch, running := False\<rparr>, w'))
      else (t, w))"

text \<open>\<open>cancel(threads)\<close>: the tasks are cancelled in the order of the array.\<close>
fun cancel_group :: "task list \<Rightarrow> world \<Rightarrow> task list \<times> world" where
  "cancel_group [] w = ([], w)"
| "cancel_group (t # ts) w =
     (case cancel_task t w of
        (t', w') \<Rightarrow> (case cancel_group ts w' of (ts', w'') \<Rightarrow> (t' # ts', w'')))"

text \<open>The three forks of \<open>startWallet\<close>, in order, giving the thread group.\<close>
definition fork_group :: "string \<Rightarrow> world \<Rightarrow> task list \<times> world" where
  "fork_group WALLET_SERVICE_ENABLED w0 =
     (let (walletListenerThread, w) = setupWalletListeners_fork w0;
          (walletReadyThread, w) = listenForWalletReady_fork w;
          (featureFlagsThread, w) = listenForFeatureFlags_fork WALLET_SERVICE_ENABLED w
      in ([walletListenerThread, walletReadyThread, featureFlagsThread], w))"

text \<open>Every registered function was created before: its number is below the counter.\<close>
definition well_formed :: "world \<Rightarrow> bool" where
  "well_formed w = list_all (\<lambda>(em, ev, f). f < next_fn w) (listeners w)"

section \<open>Feature-flag provider\<close>

text \<open>
  Modelled from the spec: the feature-flag provider (the module \<open>featureFlags\<close>, whose
  source is not among the files at hand).  It holds the remote flag and the persistent
  "ignore remote service" decision; \<open>ignoreWalletServiceFlag\<close> records the decision, and
  once it is recorded \<open>shouldUseWalletService\<close> answers no, so that the backend resolves
  to the local one.
\<close>
record featureFlags_state =
  remote_enabled :: bool
  ignore_recorded :: bool

definition ff_shouldUseWalletService :: "featureFlags_state \<Rightarrow> bool" where
  "ff_shouldUseWalletService ff = (if ignore_recorded ff then False else remote_enabled ff)"

definition ff_ignoreWalletServiceFlag :: "featureFlags_state \<Rightarrow> featureFlags_state" where
  "ff_ignoreWalletServiceFlag ff = ff\<lparr>ignore_recorded := True\<rparr>"

text \<open>
  One start attempt against the provider: the answer of \<open>shouldUseWalletService\<close> is the
  provider's, and the provider records the decision when the run calls
  \<open>ignoreWalletServiceFlag\<close>.
\<close>
definition start_attempt :: "tokenId \<Rightarrow> start_payload \<Rightarrow> featureFlags_state \<Rightarrow> start_env
    \<Rightarrow> (effect list \<times> unit outcome) \<times> featureFlags_state" where
  "start_attempt htrUid payload ff env =
     (let run = startWallet htrUid payload
                  (env\<lparr>shouldUseWalletService := ff_shouldUseWalletService ff\<rparr>)
      in (run, if Call ignoreWalletServiceFlag \<in> set (fst run)
               then ff_ignoreWalletServiceFlag ff else ff))"

section \<open>Example inputs\<close>

definition example_payload :: start_payload where
  "example_payload =
     \<lparr>words = Some ''seed words'', passphrase = ''phrase'', pin = ''123456'',
      password = ''secret'', fromXpriv = False, xpub = None\<rparr>"

definition example_registry :: "token_descr list" where
  "example_registry =
     [\<lparr>uid = ''00'', name = ''Hathor'', symbol = ''HTR''\<rparr>,
      \<lparr>uid = ''X'', name = ''Token X'', symbol = ''TKX''\<rparr>]"

text \<open>Token loading that succeeds with the tokens 00, X and Y.\<close>
definition example_tokens :: load_env where
  "example_tokens =
     \<lparr>fetchTokenData_result = Returns (), getTokens_result = Returns [''00'', ''X'', ''Y''],
      storageTokens = example_registry\<rparr>"

text \<open>
  A start on the local backend where everything succeeds: the start call returns server
  info, the wallet is ready at once, the tokens load and no further request arrives.
\<close>
definition example_env :: start_env where
  "example_env =
     \<lparr>registeredTokens = example_registry, networkName = ''mainnet'',
      hardwareWallet = False, shouldUseWalletService = False,
      start_result = Returns (Some \<lparr>version = ''0.1'', network = ''mainnet''\<rparr>),
      isReady_after_start = True, readiness = No_signal,
      tokens_env = example_tokens, parked = No_request\<rparr>"

text \<open>A reload on the local backend where everything succeeds.\<close>
definition example_reload_env :: reload_env where
  "example_reload_env =
     \<lparr>useWalletService = False, ready_arrives = True, reload_tokens_env = example_tokens,
      getNewAddresses_result = Returns (), replace_result = Returns ()\<rparr>"

section \<open>Trace predicates\<close>

text \<open>
  A stretch of a run in which the session neither fails nor ends: no Failed status, no
  clearing of the loading flag, no cancellation, no re-dispatch of a start request and no
  "ignore remote service" decision.
\<close>
definition quiet :: "effect list \<Rightarrow> bool" where
  "quiet t \<longleftrightarrow>
     Put (loadingAddresses False) \<notin> set t \<and> Put startWalletFailed \<notin> set t
     \<and> Call ignoreWalletServiceFlag \<notin> set t
     \<and> (\<forall>ts. Cancel ts \<notin> set t) \<and> (\<forall>q. Put (START_WALLET_REQUESTED q) \<notin> set t)"

section \<open>Theorems\<close>

text \<open>
  C6.  For every feature-flag change event the watcher emits a reload request if and only
  if a value of the backend-selection flag was recorded in application state, that value
  is true, and it differs from the new value.  With no recorded value nothing is emitted;
  with recorded value true and new value false exactly one reload request is emitted.
  Over a sequence of events the reload requests emitted are one per event that meets the
  condition.
\<close>
theorem listenForFeatureFlags_reload_iff:
  "(listenForFeatureFlags_turn old new = [Put reloadWalletRequested]
      \<longleftrightarrow> (\<exists>v. old = Some v \<and> v \<and> v \<noteq> new))
   \<and> (listenForFeatureFlags_turn old new = []
      \<longleftrightarrow> \<not> (\<exists>v. old = Some v \<and> v \<and> v \<noteq> new))
   \<and> listenForFeatureFlags_turn None new = []
   \<and> listenForFeatureFlags_turn (Some True) False = [Put reloadWalletRequested]
   \<and> listenForFeatureFlags events =
       map (\<lambda>e. Put reloadWalletRequested)
         (filter (\<lambda>(n, old). \<exists>v. old = Some v \<and> v \<and> v \<noteq> n) events)"
proof -
  have turn: "listenForFeatureFlags_turn old' new' =
      (if \<exists>v. old' = Some v \<and> v \<and> v \<noteq> new' then [Put reloadWalletRequested] else [])"
    for old' new'
    by (cases old') (auto simp: listenForFeatureFlags_turn_def truthy_def)
  have loop: "listenForFeatureFlags events =
       map (\<lambda>e. Put reloadWalletRequested)
         (filter (\<lambda>(n, old). \<exists>v. old = Some v \<and> v \<and> v \<noteq> n) events)"
    by (induction events) (auto simp: turn split: if_splits)
  show ?thesis
    using loop by (auto simp: turn)
qed

text \<open>
  C8.  A best-block message is ignored when the facade is not ready; when the reported
  height equals the recorded height no balance-refetch request is emitted; when it
  differs, exactly one is emitted, for the base-currency token.
\<close>
theorem bestBlockUpdate_emits:
  "bestBlockUpdate htrUid h False p = []
   \<and> bestBlockUpdate htrUid h True h = []
   \<and> bestBlockUpdate htrUid h isReady p =
       (if isReady \<and> h \<noteq> p then [Put (tokenFetchBalanceRequested htrUid False)] else [])"
  by (simp add: bestBlockUpdate_def)

subsection \<open>Auxiliary facts\<close>

lemma count_list_distinct:
  "distinct xs \<Longrightarrow> count_list xs x = (if x \<in> set xs then 1 else 0)"
  by (induction xs) auto

lemma aggregate_errors:
  "snd (aggregate rs (tm, es)) =
     es @ map tokenId (filter (\<lambda>r. rtype r = TOKEN_FETCH_METADATA_FAILED) rs)"
  by (induction rs arbitrary: tm es) (auto split: option.splits)

lemma count_list_map:
  "count_list (map f xs) y = length (filter (\<lambda>x. f x = y) xs)"
  by (induction xs) auto

lemma aggregate_lookup_last:
  "map_of (fst (aggregate rs (tm, es))) k =
     (case filter (\<lambda>r. tokenId r = k \<and> rtype r = TOKEN_FETCH_METADATA_SUCCESS
                       \<and> data r \<noteq> None) rs of
        [] \<Rightarrow> map_of tm k
      | x # xs \<Rightarrow> data (last (x # xs)))"
proof (induction rs arbitrary: tm es)
  case Nil
  show ?case by simp
next
  case (Cons r rs)
  show ?case
  proof (cases "rtype r")
    case TOKEN_FETCH_METADATA_FAILED
    then show ?thesis
      using Cons.IH [of tm "es @ [tokenId r]"] by simp
  next
    case s: TOKEN_FETCH_METADATA_SUCCESS
    show ?thesis
    proof (cases "data r")
      case None
      with s show ?thesis
        using Cons.IH [of tm es] by simp
    next
      case (Some d)
      with s show ?thesis
        using Cons.IH [of "AList.update (tokenId r) d tm" es]
        by (auto simp: update_conv' split: list.splits)
    qed
  qed
qed

lemma same_key_same_response:
  "inj_on tokenId (set rs) \<Longrightarrow> r \<in> set rs \<Longrightarrow> r' \<in> set rs \<Longrightarrow>
   tokenId r' = tokenId r \<Longrightarrow> r' = r"
  by (auto dest: inj_onD)

lemma singleton_subset_mem: "A \<subseteq> {r} \<Longrightarrow> A \<noteq> {} \<Longrightarrow> r \<in> A"
  by blast

lemma singleton_subset_eq: "A \<subseteq> {r} \<Longrightarrow> x \<in> A \<Longrightarrow> x = r"
  by blast

lemma aggregate_distinct_keys:
  "distinct (map fst tm) \<Longrightarrow> distinct (map fst (fst (aggregate rs (tm, es))))"
  by (induction rs arbitrary: tm es) (auto simp: distinct_update split: option.splits)

lemma aggregate_keys:
  "fst ` set (fst (aggregate rs (tm, es))) \<subseteq> fst ` set tm \<union> tokenId ` set rs"
proof (induction rs arbitrary: tm es)
  case Nil
  show ?case by simp
next
  case (Cons r rs)
  show ?case
  proof (cases "rtype r")
    case TOKEN_FETCH_METADATA_FAILED
    then show ?thesis
      using Cons.IH [of tm "es @ [tokenId r]"] by auto
  next
    case TOKEN_FETCH_METADATA_SUCCESS
    show ?thesis
    proof (cases "data r")
      case None
      with TOKEN_FETCH_METADATA_SUCCESS show ?thesis
        using Cons.IH [of tm es] by auto
    next
      case (Some d)
      have "fst ` set (AList.update (tokenId r) d tm) = {tokenId r} \<union> fst ` set tm"
        by (rule dom_update)
      with Some TOKEN_FETCH_METADATA_SUCCESS show ?thesis
        using Cons.IH [of "AList.update (tokenId r) d tm" es] by auto
    qed
  qed
qed

lemma indexOf_lower: "-1 \<le> indexOf ys x"
  by (induction ys) (auto simp: Let_def)

lemma indexOf_mem: "indexOf ys x = -1 \<longleftrightarrow> x \<notin> set ys"
proof (induction ys)
  case Nil
  then show ?case by simp
next
  case (Cons y ys)
  have "indexOf ys x + 1 \<noteq> -1"
    using indexOf_lower [of ys x] by arith
  with Cons show ?case by (auto simp: Let_def)
qed

lemma refetch_loop_eq:
  "refetch_loop reg ts =
     concat (map (\<lambda>t. [Put (tokenFetchBalanceRequested t True), Put (tokenFetchHistoryRequested t True)])
       (filter (\<lambda>t. t \<in> set reg) ts))"
  by (induction ts) (auto simp: indexOf_mem)

lemma foldl_Set_add_distinct:
  "distinct s \<Longrightarrow> distinct (foldl (\<lambda>s x. Set_add (f x) s) s xs)"
  by (induction xs arbitrary: s) (auto simp: Set_add_def)

lemma foldl_Set_add_set:
  "set (foldl (\<lambda>s x. Set_add (f x) s) s xs) = set s \<union> f ` set xs"
  by (induction xs arbitrary: s) (auto simp: Set_add_def)

lemma affectedTokens_distinct: "distinct (affectedTokens t)"
  by (simp add: affectedTokens_def foldl_Set_add_distinct)

lemma affectedTokens_set: "set (affectedTokens t) = token ` set (outputs t) \<union> token ` set (inputs t)"
  by (simp add: affectedTokens_def foldl_Set_add_set)

lemma count_refetch_balance:
  "count_list (concat (map (\<lambda>t. [Put (tokenFetchBalanceRequested t True), Put (tokenFetchHistoryRequested t True)]) xs))
     (Put (tokenFetchBalanceRequested u True)) = count_list xs u"
  by (induction xs) auto

lemma count_refetch_history:
  "count_list (concat (map (\<lambda>t. [Put (tokenFetchBalanceRequested t True), Put (tokenFetchHistoryRequested t True)]) xs))
     (Put (tokenFetchHistoryRequested u True)) = count_list xs u"
  by (induction xs) auto


lemma listenForWalletReady_dropWhile:
  "listenForWalletReady E events =
     (case dropWhile (\<lambda>(m, r). m \<noteq> E \<and> \<not> r) events of
        [] \<Rightarrow> ([], Blocked)
      | (m, r) # rest \<Rightarrow>
          (if m = E then ([Put walletStateError, Cancel [], Channel_close], Returned ())
           else ([Put walletStateReady, Cancel [], Channel_close], Returned ())))"
  by (induction events) (simp_all split: prod.splits)

text \<open>
  C4.  For every sequence of state events, the readiness watcher skips the events that
  are neither the error state nor seen with the facade ready, emitting nothing for them;
  at the first other event it emits the error status when the event is the error state,
  and the ready status otherwise (the facade's \<open>isReady\<close> holds), then cancels itself
  and consumes nothing more.  So a run emits at most one terminal status, never both, has
  stopped exactly when it emitted one, and is still waiting exactly when it emitted
  nothing.
\<close>
theorem listenForWalletReady_one_terminal:
  "listenForWalletReady E events =
     (case dropWhile (\<lambda>(m, r). m \<noteq> E \<and> \<not> r) events of
        [] \<Rightarrow> ([], Blocked)
      | (m, r) # rest \<Rightarrow>
          (if m = E then ([Put walletStateError, Cancel [], Channel_close], Returned ())
           else ([Put walletStateReady, Cancel [], Channel_close], Returned ())))
   \<and> length (filter (\<lambda>e. e = Put walletStateError \<or> e = Put walletStateReady)
         (fst (listenForWalletReady E events))) \<le> 1
   \<and> \<not> (Put walletStateError \<in> set (fst (listenForWalletReady E events))
        \<and> Put walletStateReady \<in> set (fst (listenForWalletReady E events)))
   \<and> (snd (listenForWalletReady E events) = Returned ()
        \<longleftrightarrow> length (filter (\<lambda>e. e = Put walletStateError \<or> e = Put walletStateReady)
              (fst (listenForWalletReady E events))) = 1)
   \<and> (snd (listenForWalletReady E events) = Blocked
        \<longleftrightarrow> fst (listenForWalletReady E events) = [])"
proof -
  let ?d = "dropWhile (\<lambda>(m, r). m \<noteq> E \<and> \<not> r) events"
  let ?err = "([Put walletStateError, Cancel [], Channel_close], Returned ())"
  let ?rdy = "([Put walletStateReady, Cancel [], Channel_close], Returned ())"
  have eq: "listenForWalletReady E events =
     (case ?d of [] \<Rightarrow> ([], Blocked)
      | (m, r) # rest \<Rightarrow> (if m = E then ?err else ?rdy))"
    by (rule listenForWalletReady_dropWhile)
  have "listenForWalletReady E events = ([], Blocked)
      \<or> listenForWalletReady E events = ?err \<or> listenForWalletReady E events = ?rdy"
  proof (cases ?d)
    case Nil
    with eq have "listenForWalletReady E events = ([], Blocked)"
      by (simp only: list.case)
    then show ?thesis by simp
  next
    case (Cons e rest)
    obtain m r where e: "e = (m, r)" by (cases e)
    from eq Cons e have "listenForWalletReady E events = (if m = E then ?err else ?rdy)"
      by (simp only: list.case prod.case)
    then show ?thesis by (cases "m = E") simp_all
  qed
  then have rest: "length (filter (\<lambda>e. e = Put walletStateError \<or> e = Put walletStateReady)
         (fst (listenForWalletReady E events))) \<le> 1
   \<and> \<not> (Put walletStateError \<in> set (fst (listenForWalletReady E events))
        \<and> Put walletStateReady \<in> set (fst (listenForWalletReady E events)))
   \<and> (snd (listenForWalletReady E events) = Returned ()
        \<longleftrightarrow> length (filter (\<lambda>e. e = Put walletStateError \<or> e = Put walletStateReady)
              (fst (listenForWalletReady E events))) = 1)
   \<and> (snd (listenForWalletReady E events) = Blocked
        \<longleftrightarrow> fst (listenForWalletReady E events) = [])"
    by (elim disjE) simp_all
  from eq rest show ?thesis by (rule conjI)
qed

text \<open>
  C5, as amended.  With an empty token list the metadata saga emits "metadata loaded" and
  nothing else.  For tokens A, B, C where A succeeds with data, B succeeds with no data
  and C fails, the success map holds A only and the failure list is exactly C.  For any
  responses, the failure list holds the token of every failed response, in order, so a
  token is listed as often as it has failed responses.  When the responses are one per
  entry of the token list and entries with the same identifier got the same response,
  each failed token is listed once for each of its occurrences in the token list (exactly
  once when the list has no repeated identifier) and is not in the success map, and each
  succeeded token is mapped to its data when it has some, is absent from the map when it
  has none, and is not in the failure list.  The saga then emits a single "metadata
  updated" message with both.
\<close>
theorem fetchTokensMetadata_aggregation:
  "fetchTokensMetadata [] responses = ([Put (metadataLoaded True)], Returned ())
   \<and> aggregate
        [\<lparr>rtype = TOKEN_FETCH_METADATA_SUCCESS, tokenId = A, data = Some d\<rparr>,
         \<lparr>rtype = TOKEN_FETCH_METADATA_SUCCESS, tokenId = B, data = None\<rparr>,
         \<lparr>rtype = TOKEN_FETCH_METADATA_FAILED, tokenId = C, data = x\<rparr>] ([], [])
       = ([(A, d)], [C])
   \<and> snd (aggregate rs ([], [])) =
       map tokenId (filter (\<lambda>r. rtype r = TOKEN_FETCH_METADATA_FAILED) rs)
   \<and> count_list (snd (aggregate rs ([], []))) u =
       length (filter (\<lambda>r. rtype r = TOKEN_FETCH_METADATA_FAILED \<and> tokenId r = u) rs)
   \<and> (map tokenId rs = tokens \<and> inj_on tokenId (set rs) \<and> tokens \<noteq> []
        \<and> aggregate rs ([], []) = (tokenMetadatas, errors) \<longrightarrow>
        fetchTokensMetadata tokens (Some rs) =
          (Put (metadataLoaded False)
             # map (\<lambda>token. Put (TOKEN_FETCH_METADATA_REQUESTED token)) tokens
             @ [Put (tokenMetadataUpdated tokenMetadatas errors)], Returned ())
        \<and> (\<forall>r \<in> set rs.
              (rtype r = TOKEN_FETCH_METADATA_FAILED \<longrightarrow>
                 count_list errors (tokenId r) = count_list tokens (tokenId r)
                 \<and> map_of tokenMetadatas (tokenId r) = None)
            \<and> (rtype r = TOKEN_FETCH_METADATA_SUCCESS \<longrightarrow>
                 map_of tokenMetadatas (tokenId r) = data r \<and> tokenId r \<notin> set errors))
        \<and> set errors \<subseteq> set tokens
        \<and> fst ` set tokenMetadatas \<subseteq> set tokens
        \<and> distinct (map fst tokenMetadatas)
        \<and> (distinct tokens \<longrightarrow>
              (\<forall>r \<in> set rs. rtype r = TOKEN_FETCH_METADATA_FAILED \<longrightarrow>
                 count_list errors (tokenId r) = 1)))"
proof -
  have empty: "fetchTokensMetadata [] responses = ([Put (metadataLoaded True)], Returned ())"
    by (simp add: fetchTokensMetadata_def)
  have example: "aggregate
        [\<lparr>rtype = TOKEN_FETCH_METADATA_SUCCESS, tokenId = A, data = Some d\<rparr>,
         \<lparr>rtype = TOKEN_FETCH_METADATA_SUCCESS, tokenId = B, data = None\<rparr>,
         \<lparr>rtype = TOKEN_FETCH_METADATA_FAILED, tokenId = C, data = x\<rparr>] ([], [])
       = ([(A, d)], [C])"
    by simp
  have errs: "snd (aggregate rs ([], [])) =
       map tokenId (filter (\<lambda>r. rtype r = TOKEN_FETCH_METADATA_FAILED) rs)"
    by (simp add: aggregate_errors)
  have cnt: "count_list (snd (aggregate rs ([], []))) u =
       length (filter (\<lambda>r. rtype r = TOKEN_FETCH_METADATA_FAILED \<and> tokenId r = u) rs)"
    by (simp add: errs count_list_map conj_commute)
  have general: "fetchTokensMetadata tokens (Some rs) =
          (Put (metadataLoaded False)
             # map (\<lambda>token. Put (TOKEN_FETCH_METADATA_REQUESTED token)) tokens
             @ [Put (tokenMetadataUpdated tokenMetadatas errors)], Returned ())
        \<and> (\<forall>r \<in> set rs.
              (rtype r = TOKEN_FETCH_METADATA_FAILED \<longrightarrow>
                 count_list errors (tokenId r) = count_list tokens (tokenId r)
                 \<and> map_of tokenMetadatas (tokenId r) = None)
            \<and> (rtype r = TOKEN_FETCH_METADATA_SUCCESS \<longrightarrow>
                 map_of tokenMetadatas (tokenId r) = data r \<and> tokenId r \<notin> set errors))
        \<and> set errors \<subseteq> set tokens
        \<and> fst ` set tokenMetadatas \<subseteq> set tokens
        \<and> distinct (map fst tokenMetadatas)
        \<and> (distinct tokens \<longrightarrow>
              (\<forall>r \<in> set rs. rtype r = TOKEN_FETCH_METADATA_FAILED \<longrightarrow>
                 count_list errors (tokenId r) = 1))"
    if toks: "map tokenId rs = tokens" and inj: "inj_on tokenId (set rs)"
      and ne: "tokens \<noteq> []"
      and agg: "aggregate rs ([], []) = (tokenMetadatas, errors)"
  proof -
    have e: "errors = map tokenId (filter (\<lambda>r. rtype r = TOKEN_FETCH_METADATA_FAILED) rs)"
      using errs agg by simp
    have run: "fetchTokensMetadata tokens (Some rs) =
          (Put (metadataLoaded False)
             # map (\<lambda>token. Put (TOKEN_FETCH_METADATA_REQUESTED token)) tokens
             @ [Put (tokenMetadataUpdated tokenMetadatas errors)], Returned ())"
      using ne agg by (simp add: fetchTokensMetadata_def)
    have per: "(rtype r = TOKEN_FETCH_METADATA_FAILED \<longrightarrow>
                 count_list errors (tokenId r) = count_list tokens (tokenId r)
                 \<and> map_of tokenMetadatas (tokenId r) = None)
            \<and> (rtype r = TOKEN_FETCH_METADATA_SUCCESS \<longrightarrow>
                 map_of tokenMetadatas (tokenId r) = data r \<and> tokenId r \<notin> set errors)"
      if r: "r \<in> set rs" for r
    proof -
      let ?S = "filter (\<lambda>r'. tokenId r' = tokenId r
          \<and> rtype r' = TOKEN_FETCH_METADATA_SUCCESS \<and> data r' \<noteq> None) rs"
      have same: "r' = r" if "r' \<in> set rs" "tokenId r' = tokenId r" for r'
        using inj r that by (rule same_key_same_response)
      have S: "set ?S \<subseteq> {r}"
        using same by auto
      have look: "map_of tokenMetadatas (tokenId r) =
          (case ?S of [] \<Rightarrow> None | y # ys \<Rightarrow> data (last (y # ys)))"
        using aggregate_lookup_last [of rs "[]" "[]" "tokenId r"] agg
        by (simp split: list.splits)
      have mem: "tokenId r \<in> set errors \<longleftrightarrow> rtype r = TOKEN_FETCH_METADATA_FAILED"
      proof
        assume "tokenId r \<in> set errors"
        then obtain r' where r': "r' \<in> set rs" "rtype r' = TOKEN_FETCH_METADATA_FAILED"
            "tokenId r' = tokenId r"
          unfolding e by auto
        from same [OF r'(1) r'(3)] r'(2)
        show "rtype r = TOKEN_FETCH_METADATA_FAILED" by simp
      next
        assume "rtype r = TOKEN_FETCH_METADATA_FAILED"
        with r show "tokenId r \<in> set errors"
          unfolding e by auto
      qed
      have failed: "count_list errors (tokenId r) = count_list tokens (tokenId r)
          \<and> map_of tokenMetadatas (tokenId r) = None"
        if f: "rtype r = TOKEN_FETCH_METADATA_FAILED"
      proof -
        have "filter (\<lambda>r'. rtype r' = TOKEN_FETCH_METADATA_FAILED \<and> tokenId r' = tokenId r) rs
            = filter (\<lambda>r'. tokenId r' = tokenId r) rs"
          using same f by (intro filter_cong) auto
        then have "count_list errors (tokenId r)
            = length (filter (\<lambda>r'. tokenId r' = tokenId r) rs)"
          unfolding e by (simp add: count_list_map conj_commute)
        also have "\<dots> = count_list tokens (tokenId r)"
          using count_list_map [of tokenId rs "tokenId r"] toks by simp
        finally have c: "count_list errors (tokenId r) = count_list tokens (tokenId r)" .
        have "?S = []"
        proof (rule ccontr)
          assume n: "?S \<noteq> []"
          have "set ?S \<noteq> {}"
            using n by (simp only: set_empty not_False_eq_True)
          with S have "r \<in> set ?S" by (rule singleton_subset_mem)
          then have "rtype r = TOKEN_FETCH_METADATA_SUCCESS" by simp
          with f show False by simp
        qed
        with look have "map_of tokenMetadatas (tokenId r) = None"
          by (simp only: list.case)
        with c show ?thesis by simp
      qed
      have succeeded: "map_of tokenMetadatas (tokenId r) = data r \<and> tokenId r \<notin> set errors"
        if s: "rtype r = TOKEN_FETCH_METADATA_SUCCESS"
      proof -
        have ne: "tokenId r \<notin> set errors"
          using mem s by simp
        have "map_of tokenMetadatas (tokenId r) = data r"
        proof (cases ?S)
          case Nil
          have "r \<notin> set ?S"
            by (simp only: Nil list.set empty_iff not_False_eq_True)
          with r s have d: "data r = None" by simp
          have "map_of tokenMetadatas (tokenId r) = None"
            using look by (simp only: Nil list.case)
          with d show ?thesis by simp
        next
          case (Cons y ys)
          have n: "?S \<noteq> []"
            by (simp only: Cons list.distinct not_False_eq_True)
          have "last ?S \<in> set ?S"
            using n by (rule last_in_set)
          with S have l: "last ?S = r" by (rule singleton_subset_eq)
          have "map_of tokenMetadatas (tokenId r) = data (last ?S)"
            using look by (simp only: Cons list.case)
          with l show ?thesis by (simp only:)
        qed
        with ne show ?thesis by simp
      qed
      from failed succeeded show ?thesis by blast
    qed
    have sub: "set errors \<subseteq> set tokens"
      unfolding e using toks by auto
    have keys: "fst ` set tokenMetadatas \<subseteq> set tokens"
      using aggregate_keys [of rs "[]" "[]"] agg toks by auto
    have dk: "distinct (map fst tokenMetadatas)"
      using aggregate_distinct_keys [of "[]" rs "[]"] agg by simp
    have once: "distinct tokens \<longrightarrow>
              (\<forall>r \<in> set rs. rtype r = TOKEN_FETCH_METADATA_FAILED \<longrightarrow>
                 count_list errors (tokenId r) = 1)"
    proof (intro impI ballI)
      fix r
      assume d: "distinct tokens" and r: "r \<in> set rs"
        and f: "rtype r = TOKEN_FETCH_METADATA_FAILED"
      have "tokenId r \<in> set tokens"
        using r toks by auto
      then have "count_list tokens (tokenId r) = 1"
        using count_list_distinct [OF d, of "tokenId r"] by simp
      with per [OF r] f show "count_list errors (tokenId r) = 1" by simp
    qed
    from run per sub keys dk once show ?thesis
      by (intro conjI ballI) simp_all
  qed
  then have cond: "map tokenId rs = tokens \<and> inj_on tokenId (set rs) \<and> tokens \<noteq> []
        \<and> aggregate rs ([], []) = (tokenMetadatas, errors) \<longrightarrow>
        fetchTokensMetadata tokens (Some rs) =
          (Put (metadataLoaded False)
             # map (\<lambda>token. Put (TOKEN_FETCH_METADATA_REQUESTED token)) tokens
             @ [Put (tokenMetadataUpdated tokenMetadatas errors)], Returned ())
        \<and> (\<forall>r \<in> set rs.
              (rtype r = TOKEN_FETCH_METADATA_FAILED \<longrightarrow>
                 count_list errors (tokenId r) = count_list tokens (tokenId r)
                 \<and> map_of tokenMetadatas (tokenId r) = None)
            \<and> (rtype r = TOKEN_FETCH_METADATA_SUCCESS \<longrightarrow>
                 map_of tokenMetadatas (tokenId r) = data r \<and> tokenId r \<notin> set errors))
        \<and> set errors \<subseteq> set tokens
        \<and> fst ` set tokenMetadatas \<subseteq> set tokens
        \<and> distinct (map fst tokenMetadatas)
        \<and> (distinct tokens \<longrightarrow>
              (\<forall>r \<in> set rs. rtype r = TOKEN_FETCH_METADATA_FAILED \<longrightarrow>
                 count_list errors (tokenId r) = 1))"
    by (intro impI) (elim conjE)
  from empty example errs cnt cond show ?thesis
    by (intro conjI)
qed

text \<open>
  C5 as stated fails for a token list with a repeated identifier: for the tokens A, A,
  both failed, the failure list holds A twice.
\<close>
theorem repeated_token_counterexample:
  "aggregate
     [\<lparr>rtype = TOKEN_FETCH_METADATA_FAILED, tokenId = ''A'', data = None\<rparr>,
      \<lparr>rtype = TOKEN_FETCH_METADATA_FAILED, tokenId = ''A'', data = None\<rparr>] ([], [])
     = ([], [''A'', ''A''])
   \<and> fetchTokensMetadata [''A'', ''A'']
       (Some [\<lparr>rtype = TOKEN_FETCH_METADATA_FAILED, tokenId = ''A'', data = None\<rparr>,
              \<lparr>rtype = TOKEN_FETCH_METADATA_FAILED, tokenId = ''A'', data = None\<rparr>]) =
       ([Put (metadataLoaded False),
         Put (TOKEN_FETCH_METADATA_REQUESTED ''A''),
         Put (TOKEN_FETCH_METADATA_REQUESTED ''A''),
         Put (tokenMetadataUpdated [] [''A'', ''A''])], Returned ())
   \<and> count_list [''A'', ''A''] ''A'' \<noteq> (1::nat)"
  by (simp add: fetchTokensMetadata_def)

text \<open>
  The theorem at tokens A, B, C (A with data, B without, C failed) and at tokens A, A, B
  (A failed, B with data).
\<close>
theorem fetchTokensMetadata_aggregation_witness:
  "fetchTokensMetadata [''A'', ''B'', ''C'']
       (Some [\<lparr>rtype = TOKEN_FETCH_METADATA_SUCCESS, tokenId = ''A'', data = Some ''{}''\<rparr>,
              \<lparr>rtype = TOKEN_FETCH_METADATA_SUCCESS, tokenId = ''B'', data = None\<rparr>,
              \<lparr>rtype = TOKEN_FETCH_METADATA_FAILED, tokenId = ''C'', data = None\<rparr>]) =
       ([Put (metadataLoaded False),
         Put (TOKEN_FETCH_METADATA_REQUESTED ''A''),
         Put (TOKEN_FETCH_METADATA_REQUESTED ''B''),
         Put (TOKEN_FETCH_METADATA_REQUESTED ''C''),
         Put (tokenMetadataUpdated [(''A'', ''{}'')] [''C''])], Returned ())
   \<and> count_list [''C''] ''C'' = 1
   \<and> map_of [(''A'', ''{}'')] ''A'' = Some ''{}''
   \<and> map_of [(''A'', ''{}'')] ''B'' = None
   \<and> map_of [(''A'', ''{}'')] ''C'' = None
   \<and> fetchTokensMetadata [''A'', ''A'', ''B'']
       (Some [\<lparr>rtype = TOKEN_FETCH_METADATA_FAILED, tokenId = ''A'', data = None\<rparr>,
              \<lparr>rtype = TOKEN_FETCH_METADATA_FAILED, tokenId = ''A'', data = None\<rparr>,
              \<lparr>rtype = TOKEN_FETCH_METADATA_SUCCESS, tokenId = ''B'', data = Some ''{}''\<rparr>]) =
       ([Put (metadataLoaded False),
         Put (TOKEN_FETCH_METADATA_REQUESTED ''A''),
         Put (TOKEN_FETCH_METADATA_REQUESTED ''A''),
         Put (TOKEN_FETCH_METADATA_REQUESTED ''B''),
         Put (tokenMetadataUpdated [(''B'', ''{}'')] [''A'', ''A''])], Returned ())
   \<and> count_list [''A'', ''A''] ''A'' = count_list [''A'', ''A'', ''B''] ''A''
   \<and> map_of [(''B'', ''{}'')] ''A'' = None"
proof -
  let ?a = "\<lparr>rtype = TOKEN_FETCH_METADATA_SUCCESS, tokenId = ''A'', data = Some ''{}''\<rparr>"
  let ?b = "\<lparr>rtype = TOKEN_FETCH_METADATA_SUCCESS, tokenId = ''B'', data = None\<rparr>"
  let ?c = "\<lparr>rtype = TOKEN_FETCH_METADATA_FAILED, tokenId = ''C'', data = None\<rparr>"
  let ?fa = "\<lparr>rtype = TOKEN_FETCH_METADATA_FAILED, tokenId = ''A'', data = None\<rparr>"
  let ?sb = "\<lparr>rtype = TOKEN_FETCH_METADATA_SUCCESS, tokenId = ''B'', data = Some ''{}''\<rparr>"
  have h1: "map tokenId [?a, ?b, ?c] = [''A'', ''B'', ''C'']
      \<and> inj_on tokenId (set [?a, ?b, ?c]) \<and> [''A'', ''B'', ''C''] \<noteq> []
      \<and> aggregate [?a, ?b, ?c] ([], []) = ([(''A'', ''{}'')], [''C''])"
    by simp
  have h2: "map tokenId [?fa, ?fa, ?sb] = [''A'', ''A'', ''B'']
      \<and> inj_on tokenId (set [?fa, ?fa, ?sb]) \<and> [''A'', ''A'', ''B''] \<noteq> []
      \<and> aggregate [?fa, ?fa, ?sb] ([], []) = ([(''B'', ''{}'')], [''A'', ''A''])"
    by simp
  have d1: "distinct [''A'', ''B'', ''C'']"
    by simp
  note k1 = fetchTokensMetadata_aggregation [of None "''A''" "''{}''" "''B''" "''C''" None
      "[?a, ?b, ?c]" "''C''" "[''A'', ''B'', ''C'']" "[(''A'', ''{}'')]" "[''C'']",
      THEN conjunct2, THEN conjunct2, THEN conjunct2, THEN conjunct2, THEN mp, OF h1]
  note k2 = fetchTokensMetadata_aggregation [of None "''A''" "''{}''" "''B''" "''C''" None
      "[?fa, ?fa, ?sb]" "''A''" "[''A'', ''A'', ''B'']" "[(''B'', ''{}'')]" "[''A'', ''A'']",
      THEN conjunct2, THEN conjunct2, THEN conjunct2, THEN conjunct2, THEN mp, OF h2]
  note run1 = k1 [THEN conjunct1]
  note per1 = k1 [THEN conjunct2, THEN conjunct1]
  note once1 = k1 [THEN conjunct2, THEN conjunct2, THEN conjunct2, THEN conjunct2,
      THEN conjunct2, THEN mp, OF d1]
  note run2 = k2 [THEN conjunct1]
  note per2 = k2 [THEN conjunct2, THEN conjunct1]
  have c: "count_list [''C''] ''C'' = 1"
    using once1 [THEN bspec, of ?c] by simp
  have ma: "map_of [(''A'', ''{}'')] ''A'' = Some ''{}''"
    using per1 [THEN bspec, of ?a] by simp
  have mb: "map_of [(''A'', ''{}'')] ''B'' = None"
    using per1 [THEN bspec, of ?b] by simp
  have mc: "map_of [(''A'', ''{}'')] ''C'' = None"
    using per1 [THEN bspec, of ?c] by simp
  have rep: "count_list [''A'', ''A''] ''A'' = count_list [''A'', ''A'', ''B''] ''A''
      \<and> map_of [(''B'', ''{}'')] ''A'' = None"
    using per2 [THEN bspec, of ?fa] by simp
  from run1 c ma mb mc run2 rep show ?thesis
    by (intro conjI) simp_all
qed

text \<open>
  C7.  A transaction event handled while the facade is not ready has no effect at all.
  Otherwise the handler sends the notification, publishes the address returned by the
  facade's current-address query, and then, for the deduplicated tokens of the outputs and
  inputs, emits one forced balance refetch and one forced history refetch for each token
  that is registered in application state, and none for the others.  For a transaction on
  the base currency and X with only X registered, requests are emitted for X only.
\<close>
theorem handleTx_refetch:
  "handleTx False isBlock t stateTokens newAddress = []
   \<and> handleTx True isBlock t stateTokens newAddress =
       sendNotification (if isBlock then ''You've found a new block! Click to open it.''
                         else ''You've received a new transaction! Click to open it.'')
       # Put (sharedAddressUpdate (fst newAddress) (snd newAddress))
       # concat (map (\<lambda>u. [Put (tokenFetchBalanceRequested u True),
                             Put (tokenFetchHistoryRequested u True)])
           (filter (\<lambda>u. u \<in> uid ` set stateTokens) (affectedTokens t)))
   \<and> distinct (affectedTokens t)
   \<and> set (affectedTokens t) = token ` set (outputs t) \<union> token ` set (inputs t)
   \<and> count_list (handleTx True isBlock t stateTokens newAddress)
         (Put (tokenFetchBalanceRequested u True)) =
       (if u \<in> token ` set (outputs t) \<union> token ` set (inputs t) \<and> u \<in> uid ` set stateTokens
        then 1 else 0)
   \<and> count_list (handleTx True isBlock t stateTokens newAddress)
         (Put (tokenFetchHistoryRequested u True)) =
       (if u \<in> token ` set (outputs t) \<union> token ` set (inputs t) \<and> u \<in> uid ` set stateTokens
        then 1 else 0)
   \<and> count_list (handleTx True isBlock t stateTokens newAddress)
         (Put (sharedAddressUpdate (fst newAddress) (snd newAddress))) = 1
   \<and> handleTx True False
         \<lparr>tx_id = ''tx1'', inputs = [\<lparr>token = ''X''\<rparr>, \<lparr>token = ''00''\<rparr>],
          outputs = [\<lparr>token = ''00''\<rparr>, \<lparr>token = ''X''\<rparr>]\<rparr>
         [\<lparr>uid = ''X'', name = ''Token X'', symbol = ''TKX''\<rparr>] (''addr'', 7) =
       [sendNotification ''You've received a new transaction! Click to open it.'',
        Put (sharedAddressUpdate ''addr'' 7),
        Put (tokenFetchBalanceRequested ''X'' True),
        Put (tokenFetchHistoryRequested ''X'' True)]"
proof -
  let ?reg = "\<lambda>u. u \<in> uid ` set stateTokens"
  let ?pair = "\<lambda>u. [Put (tokenFetchBalanceRequested u True), Put (tokenFetchHistoryRequested u True)]"
  have notready: "handleTx False isBlock t stateTokens newAddress = []"
    by (simp add: handleTx_def)
  have ready: "handleTx True isBlock t stateTokens newAddress =
       sendNotification (if isBlock then ''You've found a new block! Click to open it.''
                         else ''You've received a new transaction! Click to open it.'')
       # Put (sharedAddressUpdate (fst newAddress) (snd newAddress))
       # concat (map ?pair (filter ?reg (affectedTokens t)))"
    by (simp add: handleTx_def refetch_loop_eq Let_def)
  have d: "distinct (filter ?reg (affectedTokens t))"
    using affectedTokens_distinct by (rule distinct_filter)
  have cnt: "count_list (filter ?reg (affectedTokens t)) u =
       (if u \<in> token ` set (outputs t) \<union> token ` set (inputs t) \<and> u \<in> uid ` set stateTokens
        then 1 else 0)"
    using count_list_distinct [OF d, of u] by (simp add: affectedTokens_set)
  have bal: "count_list (handleTx True isBlock t stateTokens newAddress)
         (Put (tokenFetchBalanceRequested u True)) =
       (if u \<in> token ` set (outputs t) \<union> token ` set (inputs t) \<and> u \<in> uid ` set stateTokens
        then 1 else 0)"
    unfolding ready using cnt by (simp add: count_refetch_balance)
  have hist: "count_list (handleTx True isBlock t stateTokens newAddress)
         (Put (tokenFetchHistoryRequested u True)) =
       (if u \<in> token ` set (outputs t) \<union> token ` set (inputs t) \<and> u \<in> uid ` set stateTokens
        then 1 else 0)"
    unfolding ready using cnt by (simp add: count_refetch_history)
  have addr0: "count_list (concat (map ?pair xs)) (Put (sharedAddressUpdate a i)) = 0" for xs a i
    by (induction xs) simp_all
  have addr: "count_list (handleTx True isBlock t stateTokens newAddress)
         (Put (sharedAddressUpdate (fst newAddress) (snd newAddress))) = 1"
    unfolding ready by (simp add: addr0)
  have ex: "handleTx True False
         \<lparr>tx_id = ''tx1'', inputs = [\<lparr>token = ''X''\<rparr>, \<lparr>token = ''00''\<rparr>],
          outputs = [\<lparr>token = ''00''\<rparr>, \<lparr>token = ''X''\<rparr>]\<rparr>
         [\<lparr>uid = ''X'', name = ''Token X'', symbol = ''TKX''\<rparr>] (''addr'', 7) =
       [sendNotification ''You've received a new transaction! Click to open it.'',
        Put (sharedAddressUpdate ''addr'' 7),
        Put (tokenFetchBalanceRequested ''X'' True),
        Put (tokenFetchHistoryRequested ''X'' True)]"
    by (simp add: handleTx_def affectedTokens_def Set_add_def)
  from notready ready affectedTokens_distinct affectedTokens_set bal hist addr ex
  show ?thesis by (intro conjI)
qed

subsection \<open>Runs of the token loader, the orchestrator and the reload coordinator\<close>

lemma loadTokens_effects:
  "e \<in> set (fst (loadTokens htr env)) \<Longrightarrow>
     e = Call (fetchTokenData htr) \<or> e = Call wallet_getTokens
     \<or> (\<exists>r. e = Spawn_fetchTokensMetadata r)
     \<or> (\<exists>t. e = Put (tokenFetchBalanceRequested t False))"
  by (auto simp: loadTokens_def Let_def split: call_result.splits)

lemma invalidate_loop_eq:
  "invalidate_loop htr ts = map (\<lambda>t. Put (tokenInvalidateHistory t)) (filter (\<lambda>t. t \<noteq> htr) ts)"
  by (induction ts) auto

lemma count_invalidate:
  "count_list (map (\<lambda>t. Put (tokenInvalidateHistory t)) ts) (Put (tokenInvalidateHistory u))
     = count_list ts u"
  by (induction ts) auto

lemma count_list_0: "x \<notin> set xs \<Longrightarrow> count_list xs x = 0"
  by (induction xs) auto

lemma count_list_filter_neq:
  "count_list (filter (\<lambda>t. t \<noteq> h) ts) u = (if u = h then 0 else count_list ts u)"
  by (induction ts) auto

lemma walletReloading_try_success:
  assumes "loadTokens htr (reload_tokens_env env) = (lt, Returned (allTokens, reg))"
  shows "walletReloading_try htr env =
     (let t = lt @ invalidate_loop htr allTokens
      in if useWalletService env then
           (case getNewAddresses_result env of
              Throws \<Rightarrow> (t @ [Call wallet_getNewAddresses, Put startWalletFailed], Returned ())
            | Returns _ \<Rightarrow>
                then_run (t @ [Call wallet_getNewAddresses]) (walletReloading_finish allTokens env))
         else then_run t (walletReloading_finish allTokens env))"
  using assms by (simp add: walletReloading_try_def)

lemma walletReloading_finish_count:
  "count_list (fst (walletReloading_finish allTokens env)) (Put (tokenInvalidateHistory u)) = 0"
  by (simp add: walletReloading_finish_def split: call_result.splits)

lemma count_loadTokens_invalidate:
  "count_list (fst (loadTokens htr env)) (Put (tokenInvalidateHistory u)) = 0"
  by (rule count_list_0) (auto dest: loadTokens_effects)

lemma walletReloading_count:
  assumes w: "useWalletService env \<or> ready_arrives env"
    and l: "loadTokens htr (reload_tokens_env env) = (lt, Returned (allTokens, reg))"
  shows "count_list (fst (walletReloading htr env)) (Put (tokenInvalidateHistory u))
     = (if u = htr then 0 else count_list allTokens u)"
proof -
  have lt0: "count_list lt (Put (tokenInvalidateHistory u)) = 0"
    using count_loadTokens_invalidate [of htr "reload_tokens_env env" u] l by simp
  have inv: "count_list (invalidate_loop htr allTokens) (Put (tokenInvalidateHistory u))
     = (if u = htr then 0 else count_list allTokens u)"
    by (simp add: invalidate_loop_eq count_invalidate count_list_filter_neq)
  have t: "count_list (fst (walletReloading_try htr env)) (Put (tokenInvalidateHistory u))
     = (if u = htr then 0 else count_list allTokens u)"
    using lt0 inv walletReloading_finish_count [of allTokens env u]
    by (auto simp: walletReloading_try_success [OF l] Let_def then_run_def
        split: call_result.splits)
  show ?thesis
    using w t by (auto simp: walletReloading_def then_run_def)
qed


lemma walletReloading_finish_effects:
  "e \<in> set (fst (walletReloading_finish allTokens env)) \<Longrightarrow>
     e = Put startWalletFailed \<or> e = Put walletRefreshSharedAddress
     \<or> e = Put (loadWalletSuccess allTokens) \<or> e = routerHistory_replace ''/wallet/''
     \<or> e = Put (loadingAddresses False)"
  by (auto simp: walletReloading_finish_def split: call_result.splits)

lemma walletReloading_try_effects:
  assumes "e \<in> set (fst (walletReloading_try htr env))"
  shows "e = Call (fetchTokenData htr) \<or> e = Call wallet_getTokens
     \<or> (\<exists>r. e = Spawn_fetchTokensMetadata r)
     \<or> (\<exists>t. e = Put (tokenFetchBalanceRequested t False))
     \<or> (\<exists>t. e = Put (tokenInvalidateHistory t))
     \<or> (e = Call wallet_getNewAddresses \<and> useWalletService env)
     \<or> e = Put startWalletFailed \<or> e = Put walletRefreshSharedAddress
     \<or> (\<exists>ts. e = Put (loadWalletSuccess ts)) \<or> e = routerHistory_replace ''/wallet/''
     \<or> e = Put (loadingAddresses False)"
proof -
  obtain lt out where l: "loadTokens htr (reload_tokens_env env) = (lt, out)"
    by (cases "loadTokens htr (reload_tokens_env env)")
  have lt: "x \<in> set lt \<Longrightarrow> x = Call (fetchTokenData htr) \<or> x = Call wallet_getTokens
     \<or> (\<exists>r. x = Spawn_fetchTokensMetadata r)
     \<or> (\<exists>t. x = Put (tokenFetchBalanceRequested t False))" for x
    using loadTokens_effects [of x htr "reload_tokens_env env"] l by simp
  show ?thesis
  proof (cases out)
    case (Returned r)
    obtain allTokens reg where r: "r = (allTokens, reg)" by (cases r)
    have "e \<in> set lt \<or> e \<in> set (invalidate_loop htr allTokens)
        \<or> (e = Call wallet_getNewAddresses \<and> useWalletService env)
        \<or> e = Put startWalletFailed
        \<or> e \<in> set (fst (walletReloading_finish allTokens env))"
      using assms l Returned r
      by (auto simp: walletReloading_try_def Let_def then_run_def split: call_result.splits if_splits)
    then show ?thesis
      using lt [of e] walletReloading_finish_effects [of e allTokens env]
      by (auto simp: invalidate_loop_eq)
  next
    case Raised
    with assms l have "e \<in> set lt \<or> e = Put startWalletFailed"
      by (auto simp: walletReloading_try_def)
    then show ?thesis using lt [of e] by auto
  next
    case Blocked
    with assms l have "e \<in> set lt"
      by (auto simp: walletReloading_try_def)
    then show ?thesis using lt [of e] by auto
  qed
qed

text \<open>
  C9.  A reload forks a fresh readiness watcher and waits for the ready signal exactly
  when the backend is the local one, and stays suspended there while no ready signal
  arrives; it asks the facade for new addresses only with the remote-service backend.
  Once the token loader has returned the refreshed tokens, the run holds no history
  invalidation for the base currency and, for every other token, as many as the token
  occurs in the refreshed tokens: exactly one when the refreshed tokens are a set.  When
  no later step fails, the run is: loading flag set, the wait (local backend only), the
  token loader, the invalidations, the address refresh (remote service only), the
  shared-address refresh request, the load-success status and the cleared loading flag.
\<close>
theorem walletReloading_cycle:
  "(Fork listenForWalletReady_saga \<in> set (fst (walletReloading htr env))
      \<longleftrightarrow> \<not> useWalletService env)
   \<and> (Take_WALLET_STATE_READY \<in> set (fst (walletReloading htr env))
      \<longleftrightarrow> \<not> useWalletService env)
   \<and> (\<not> useWalletService env \<and> \<not> ready_arrives env \<longrightarrow>
        walletReloading htr env =
          ([Put (loadingAddresses True), Fork listenForWalletReady_saga,
            Take_WALLET_STATE_READY], Blocked))
   \<and> (Call wallet_getNewAddresses \<in> set (fst (walletReloading htr env))
        \<longrightarrow> useWalletService env)
   \<and> ((useWalletService env \<or> ready_arrives env)
        \<and> loadTokens htr (reload_tokens_env env) = (lt, Returned (allTokens, reg)) \<longrightarrow>
        count_list (fst (walletReloading htr env)) (Put (tokenInvalidateHistory htr)) = 0
        \<and> (\<forall>u. u \<noteq> htr \<longrightarrow>
              count_list (fst (walletReloading htr env)) (Put (tokenInvalidateHistory u))
                = count_list allTokens u)
        \<and> (distinct allTokens \<longrightarrow>
              (\<forall>u \<in> set allTokens. u \<noteq> htr \<longrightarrow>
                 count_list (fst (walletReloading htr env)) (Put (tokenInvalidateHistory u)) = 1))
        \<and> (useWalletService env \<longrightarrow>
              Call wallet_getNewAddresses \<in> set (fst (walletReloading htr env)))
        \<and> ((useWalletService env \<longrightarrow> getNewAddresses_result env = Returns ())
            \<and> replace_result env = Returns () \<longrightarrow>
            walletReloading htr env =
              ([Put (loadingAddresses True)]
               @ (if useWalletService env then []
                  else [Fork listenForWalletReady_saga, Take_WALLET_STATE_READY])
               @ lt
               @ map (\<lambda>u. Put (tokenInvalidateHistory u)) (filter (\<lambda>u. u \<noteq> htr) allTokens)
               @ (if useWalletService env then [Call wallet_getNewAddresses] else [])
               @ [Put walletRefreshSharedAddress, Put (loadWalletSuccess allTokens),
                  routerHistory_replace ''/wallet/'', Put (loadingAddresses False)],
               Returned ())))"
proof -
  have notfork: "Fork listenForWalletReady_saga \<notin> set (fst (walletReloading_try htr env))"
    using walletReloading_try_effects [of "Fork listenForWalletReady_saga" htr env] by auto
  have nottake: "Take_WALLET_STATE_READY \<notin> set (fst (walletReloading_try htr env))"
    using walletReloading_try_effects [of Take_WALLET_STATE_READY htr env] by auto
  have c1: "Fork listenForWalletReady_saga \<in> set (fst (walletReloading htr env))
      \<longleftrightarrow> \<not> useWalletService env"
    using notfork by (auto simp: walletReloading_def then_run_def)
  have c2: "Take_WALLET_STATE_READY \<in> set (fst (walletReloading htr env))
      \<longleftrightarrow> \<not> useWalletService env"
    using nottake by (auto simp: walletReloading_def then_run_def)
  have c3: "\<not> useWalletService env \<and> \<not> ready_arrives env \<longrightarrow>
        walletReloading htr env =
          ([Put (loadingAddresses True), Fork listenForWalletReady_saga,
            Take_WALLET_STATE_READY], Blocked)"
    by (simp add: walletReloading_def)
  have c4: "Call wallet_getNewAddresses \<in> set (fst (walletReloading htr env))
        \<longrightarrow> useWalletService env"
    using walletReloading_try_effects [of "Call wallet_getNewAddresses" htr env]
    by (auto simp: walletReloading_def then_run_def split: if_splits)
  have c5: "count_list (fst (walletReloading htr env)) (Put (tokenInvalidateHistory htr)) = 0
        \<and> (\<forall>u. u \<noteq> htr \<longrightarrow>
              count_list (fst (walletReloading htr env)) (Put (tokenInvalidateHistory u))
                = count_list allTokens u)
        \<and> (distinct allTokens \<longrightarrow>
              (\<forall>u \<in> set allTokens. u \<noteq> htr \<longrightarrow>
                 count_list (fst (walletReloading htr env)) (Put (tokenInvalidateHistory u)) = 1))
        \<and> (useWalletService env \<longrightarrow>
              Call wallet_getNewAddresses \<in> set (fst (walletReloading htr env)))
        \<and> ((useWalletService env \<longrightarrow> getNewAddresses_result env = Returns ())
            \<and> replace_result env = Returns () \<longrightarrow>
            walletReloading htr env =
              ([Put (loadingAddresses True)]
               @ (if useWalletService env then []
                  else [Fork listenForWalletReady_saga, Take_WALLET_STATE_READY])
               @ lt
               @ map (\<lambda>u. Put (tokenInvalidateHistory u)) (filter (\<lambda>u. u \<noteq> htr) allTokens)
               @ (if useWalletService env then [Call wallet_getNewAddresses] else [])
               @ [Put walletRefreshSharedAddress, Put (loadWalletSuccess allTokens),
                  routerHistory_replace ''/wallet/'', Put (loadingAddresses False)],
               Returned ()))"
    if w: "useWalletService env \<or> ready_arrives env"
      and l: "loadTokens htr (reload_tokens_env env) = (lt, Returned (allTokens, reg))"
  proof -
    note cnt = walletReloading_count [OF w l]
    have a: "count_list (fst (walletReloading htr env)) (Put (tokenInvalidateHistory htr)) = 0"
      using cnt [of htr] by simp
    have b: "\<forall>u. u \<noteq> htr \<longrightarrow>
              count_list (fst (walletReloading htr env)) (Put (tokenInvalidateHistory u))
                = count_list allTokens u"
      using cnt by simp
    have c: "distinct allTokens \<longrightarrow>
              (\<forall>u \<in> set allTokens. u \<noteq> htr \<longrightarrow>
                 count_list (fst (walletReloading htr env)) (Put (tokenInvalidateHistory u)) = 1)"
      using cnt by (simp add: count_list_distinct)
    have d: "useWalletService env \<longrightarrow>
              Call wallet_getNewAddresses \<in> set (fst (walletReloading htr env))"
      by (auto simp: walletReloading_def walletReloading_try_success [OF l] Let_def then_run_def
          split: call_result.splits)
    have e: "(useWalletService env \<longrightarrow> getNewAddresses_result env = Returns ())
            \<and> replace_result env = Returns () \<longrightarrow>
            walletReloading htr env =
              ([Put (loadingAddresses True)]
               @ (if useWalletService env then []
                  else [Fork listenForWalletReady_saga, Take_WALLET_STATE_READY])
               @ lt
               @ map (\<lambda>u. Put (tokenInvalidateHistory u)) (filter (\<lambda>u. u \<noteq> htr) allTokens)
               @ (if useWalletService env then [Call wallet_getNewAddresses] else [])
               @ [Put walletRefreshSharedAddress, Put (loadWalletSuccess allTokens),
                  routerHistory_replace ''/wallet/'', Put (loadingAddresses False)],
               Returned ())"
      using w
      by (auto simp: walletReloading_def walletReloading_try_success [OF l] Let_def then_run_def
          walletReloading_finish_def invalidate_loop_eq)
    from a b c d e show ?thesis by (intro conjI)
  qed
  then have c5': "(useWalletService env \<or> ready_arrives env)
        \<and> loadTokens htr (reload_tokens_env env) = (lt, Returned (allTokens, reg)) \<longrightarrow>
        count_list (fst (walletReloading htr env)) (Put (tokenInvalidateHistory htr)) = 0
        \<and> (\<forall>u. u \<noteq> htr \<longrightarrow>
              count_list (fst (walletReloading htr env)) (Put (tokenInvalidateHistory u))
                = count_list allTokens u)
        \<and> (distinct allTokens \<longrightarrow>
              (\<forall>u \<in> set allTokens. u \<noteq> htr \<longrightarrow>
                 count_list (fst (walletReloading htr env)) (Put (tokenInvalidateHistory u)) = 1))
        \<and> (useWalletService env \<longrightarrow>
              Call wallet_getNewAddresses \<in> set (fst (walletReloading htr env)))
        \<and> ((useWalletService env \<longrightarrow> getNewAddresses_result env = Returns ())
            \<and> replace_result env = Returns () \<longrightarrow>
            walletReloading htr env =
              ([Put (loadingAddresses True)]
               @ (if useWalletService env then []
                  else [Fork listenForWalletReady_saga, Take_WALLET_STATE_READY])
               @ lt
               @ map (\<lambda>u. Put (tokenInvalidateHistory u)) (filter (\<lambda>u. u \<noteq> htr) allTokens)
               @ (if useWalletService env then [Call wallet_getNewAddresses] else [])
               @ [Put walletRefreshSharedAddress, Put (loadWalletSuccess allTokens),
                  routerHistory_replace ''/wallet/'', Put (loadingAddresses False)],
               Returned ()))"
    by (intro impI) (elim conjE)
  from c1 c2 c3 c4 c5' show ?thesis by (intro conjI)
qed

lemma startWallet_fallback:
  "start_result env = Throws \<Longrightarrow> startWallet_useWalletService env \<Longrightarrow>
   startWallet htr p env =
     (startWallet_setup p env
      @ [Call wallet_start, Call ignoreWalletServiceFlag, Cancel threads,
         Put (START_WALLET_REQUESTED p)], Returned ())"
  by (simp add: startWallet_def Let_def)

lemma startWallet_proceeds:
  "\<not> (start_result env = Throws \<and> startWallet_useWalletService env) \<Longrightarrow>
   startWallet htr p env =
     then_run
       (startWallet_setup p env @ [Call wallet_start]
        @ (case start_result env of
             Returns None \<Rightarrow> [Put (setServerInfo None (networkName env))]
           | Returns (Some info) \<Rightarrow> [Put (setServerInfo (Some (version info)) (network info))]
           | Throws \<Rightarrow> []))
       (startWallet_wait htr p env)"
  by (auto simp: startWallet_def Let_def then_run_def split: call_result.splits option.splits)

lemma startWallet_wait_error:
  "\<not> isReady_after_start env \<Longrightarrow> readiness env = Error_signal \<Longrightarrow>
   startWallet_wait htr p env =
     ([routerHistory_replace ''/loading_addresses'', Race_ready_error,
       Put startWalletFailed, Cancel threads], Returned ())"
  by (simp add: startWallet_wait_def)

lemma startWallet_wait_blocked:
  "\<not> isReady_after_start env \<Longrightarrow> readiness env = No_signal \<Longrightarrow>
   startWallet_wait htr p env =
     ([routerHistory_replace ''/loading_addresses'', Race_ready_error], Blocked)"
  by (simp add: startWallet_wait_def)

lemma startWallet_wait_ready:
  "isReady_after_start env \<or> readiness env = Ready_signal \<Longrightarrow>
   startWallet_wait htr p env =
     then_run
       (routerHistory_replace ''/loading_addresses''
        # (if isReady_after_start env then [] else [Race_ready_error]))
       (startWallet_load htr p env)"
  by (auto simp: startWallet_wait_def)

lemma startWallet_load_raised:
  "snd (loadTokens htr (tokens_env env)) = Raised \<Longrightarrow>
   startWallet_load htr p env =
     (fst (loadTokens htr (tokens_env env)) @ [Put startWalletFailed, Cancel threads],
      Returned ())"
  by (cases "loadTokens htr (tokens_env env)") (simp add: startWallet_load_def)

lemma startWallet_load_returned:
  "snd (loadTokens htr (tokens_env env)) = Returned (allTokens, reg) \<Longrightarrow>
   startWallet_load htr p env =
     (fst (loadTokens htr (tokens_env env))
      @ [Put (loadWalletSuccess allTokens), routerHistory_replace ''/wallet/'',
         Put (loadingAddresses False), Race_start_reload]
      @ (case parked env of
           No_request \<Rightarrow> []
         | Start_request \<Rightarrow> [Cancel threads]
         | Reload_request \<Rightarrow> [Cancel threads, Put (START_WALLET_REQUESTED p)]),
      case parked env of No_request \<Rightarrow> Blocked | Start_request \<Rightarrow> Returned ()
        | Reload_request \<Rightarrow> Returned ())"
  by (cases "loadTokens htr (tokens_env env)")
     (simp add: startWallet_load_def Let_def split: request.splits)

lemma loadTokens_outcome:
  "snd (loadTokens htr env) = Raised \<or> (\<exists>a r. snd (loadTokens htr env) = Returned (a, r))"
  by (simp add: loadTokens_def Let_def split: call_result.splits)

lemma setup_effects:
  "e \<in> set (startWallet_setup p env) \<Longrightarrow>
     e = Put (loadingAddresses True) \<or> e = Put storeRouterHistory \<or> e = unlock
     \<or> e = Put (reloadData (registeredTokens env)) \<or> e = Put (isOnlineUpdate False)
     \<or> e = Call shouldUseWalletService_call
     \<or> e = Put (setUseWalletService (startWallet_useWalletService env))
     \<or> e = Put_dispatch_thunk
     \<or> e = cleanLoadedData (\<not> fromXpriv p)
     \<or> (\<exists>b. e = Put (setWallet b)) \<or> (\<exists>s. e = Fork s)"
  by (auto simp: startWallet_setup_def Let_def split: if_splits)

lemma setup_hd: "\<exists>rest. startWallet_setup p env = Put (loadingAddresses True) # rest"
  by (simp add: startWallet_setup_def Let_def)

lemma quiet_Nil: "quiet []"
  by (simp add: quiet_def)

lemma quiet_append: "quiet (a @ b) \<longleftrightarrow> quiet a \<and> quiet b"
  by (auto simp: quiet_def)

lemma quiet_Cons:
  "quiet (e # t) \<longleftrightarrow>
     e \<noteq> Put (loadingAddresses False) \<and> e \<noteq> Put startWalletFailed
     \<and> e \<noteq> Call ignoreWalletServiceFlag \<and> (\<forall>ts. e \<noteq> Cancel ts)
     \<and> (\<forall>q. e \<noteq> Put (START_WALLET_REQUESTED q)) \<and> quiet t"
  by (auto simp: quiet_def)

lemma quiet_setup: "quiet (startWallet_setup p env)"
  unfolding quiet_def by (auto dest: setup_effects)

lemma quiet_loadTokens: "quiet (fst (loadTokens htr env))"
  unfolding quiet_def by (auto dest: loadTokens_effects)

lemma quiet_serverInfo:
  "quiet (case start_result env of
             Returns None \<Rightarrow> [Put (setServerInfo None (networkName env))]
           | Returns (Some info) \<Rightarrow> [Put (setServerInfo (Some (version info)) (network info))]
           | Throws \<Rightarrow> [])"
  by (simp add: quiet_Cons quiet_Nil split: call_result.splits option.splits)

lemma startWallet_shape:
  "(start_result env = Throws \<and> startWallet_useWalletService env
      \<and> startWallet htr p env =
          (startWallet_setup p env
           @ [Call wallet_start, Call ignoreWalletServiceFlag, Cancel threads,
              Put (START_WALLET_REQUESTED p)], Returned ()))
   \<or> (\<not> (start_result env = Throws \<and> startWallet_useWalletService env)
      \<and> \<not> isReady_after_start env \<and> readiness env = Error_signal
      \<and> (\<exists>pre. quiet pre
            \<and> startWallet htr p env =
                (pre @ [Put startWalletFailed, Cancel threads], Returned ())))
   \<or> (\<not> (start_result env = Throws \<and> startWallet_useWalletService env)
      \<and> \<not> isReady_after_start env \<and> readiness env = No_signal
      \<and> (\<exists>pre. quiet pre \<and> startWallet htr p env = (pre, Blocked)))
   \<or> (\<not> (start_result env = Throws \<and> startWallet_useWalletService env)
      \<and> (isReady_after_start env \<or> readiness env = Ready_signal)
      \<and> snd (loadTokens htr (tokens_env env)) = Raised
      \<and> (\<exists>pre. quiet pre
            \<and> startWallet htr p env =
                (pre @ [Put startWalletFailed, Cancel threads], Returned ())))
   \<or> (\<not> (start_result env = Throws \<and> startWallet_useWalletService env)
      \<and> (isReady_after_start env \<or> readiness env = Ready_signal)
      \<and> (\<exists>allTokens reg pre.
            snd (loadTokens htr (tokens_env env)) = Returned (allTokens, reg)
            \<and> quiet pre
            \<and> startWallet htr p env =
                (pre @ [Put (loadWalletSuccess allTokens), routerHistory_replace ''/wallet/'',
                        Put (loadingAddresses False), Race_start_reload]
                     @ (case parked env of
                          No_request \<Rightarrow> []
                        | Start_request \<Rightarrow> [Cancel threads]
                        | Reload_request \<Rightarrow> [Cancel threads, Put (START_WALLET_REQUESTED p)]),
                 case parked env of No_request \<Rightarrow> Blocked | Start_request \<Rightarrow> Returned ()
                   | Reload_request \<Rightarrow> Returned ())))"
proof (cases "start_result env = Throws \<and> startWallet_useWalletService env")
  case True
  then show ?thesis
    using startWallet_fallback [of env htr p] by simp
next
  case nf: False
  let ?started = "startWallet_setup p env @ [Call wallet_start]
        @ (case start_result env of
             Returns None \<Rightarrow> [Put (setServerInfo None (networkName env))]
           | Returns (Some info) \<Rightarrow> [Put (setServerInfo (Some (version info)) (network info))]
           | Throws \<Rightarrow> [])"
  have qs: "quiet ?started"
    using quiet_setup [of p env] quiet_serverInfo [of env]
    by (simp add: quiet_append quiet_Cons quiet_Nil)
  have sw: "startWallet htr p env = then_run ?started (startWallet_wait htr p env)"
    using nf by (rule startWallet_proceeds)
  show ?thesis
  proof (cases "isReady_after_start env \<or> readiness env = Ready_signal")
    case False
    then have nr: "\<not> isReady_after_start env" and r: "readiness env \<noteq> Ready_signal"
      by simp_all
    show ?thesis
    proof (cases "readiness env")
      case Ready_signal
      with r show ?thesis by simp
    next
      case Error_signal
      let ?pre = "?started @ [routerHistory_replace ''/loading_addresses'', Race_ready_error]"
      have "quiet ?pre"
        using qs by (simp add: quiet_append quiet_Cons quiet_Nil)
      moreover have "startWallet htr p env =
          (?pre @ [Put startWalletFailed, Cancel threads], Returned ())"
        by (simp add: sw startWallet_wait_error [OF nr Error_signal] then_run_def)
      ultimately have "\<exists>pre. quiet pre
            \<and> startWallet htr p env =
                (pre @ [Put startWalletFailed, Cancel threads], Returned ())"
        by blast
      with nf nr Error_signal show ?thesis by blast
    next
      case No_signal
      let ?pre = "?started @ [routerHistory_replace ''/loading_addresses'', Race_ready_error]"
      have "quiet ?pre"
        using qs by (simp add: quiet_append quiet_Cons quiet_Nil)
      moreover have "startWallet htr p env = (?pre, Blocked)"
        by (simp add: sw startWallet_wait_blocked [OF nr No_signal] then_run_def)
      ultimately have "\<exists>pre. quiet pre \<and> startWallet htr p env = (pre, Blocked)"
        by blast
      with nf nr No_signal show ?thesis by blast
    qed
  next
    case rdy: True
    let ?waited = "?started @ routerHistory_replace ''/loading_addresses''
        # (if isReady_after_start env then [] else [Race_ready_error])"
    let ?lt = "fst (loadTokens htr (tokens_env env))"
    have qw: "quiet (?waited @ ?lt)"
      using qs quiet_loadTokens [of htr "tokens_env env"]
      by (simp add: quiet_append quiet_Cons quiet_Nil)
    have sw2: "startWallet htr p env = then_run ?waited (startWallet_load htr p env)"
      by (simp add: sw startWallet_wait_ready [OF rdy] then_run_def)
    from loadTokens_outcome [of htr "tokens_env env"] show ?thesis
    proof (elim disjE exE)
      assume ra: "snd (loadTokens htr (tokens_env env)) = Raised"
      have "startWallet htr p env =
          ((?waited @ ?lt) @ [Put startWalletFailed, Cancel threads], Returned ())"
        by (simp add: sw2 startWallet_load_raised [OF ra] then_run_def)
      with qw have "\<exists>pre. quiet pre
            \<and> startWallet htr p env =
                (pre @ [Put startWalletFailed, Cancel threads], Returned ())"
        by blast
      with nf rdy ra show ?thesis by blast
    next
      fix a r
      assume re: "snd (loadTokens htr (tokens_env env)) = Returned (a, r)"
      have "startWallet htr p env =
          ((?waited @ ?lt) @ [Put (loadWalletSuccess a), routerHistory_replace ''/wallet/'',
                        Put (loadingAddresses False), Race_start_reload]
                     @ (case parked env of
                          No_request \<Rightarrow> []
                        | Start_request \<Rightarrow> [Cancel threads]
                        | Reload_request \<Rightarrow> [Cancel threads, Put (START_WALLET_REQUESTED p)]),
                 case parked env of No_request \<Rightarrow> Blocked | Start_request \<Rightarrow> Returned ()
                   | Reload_request \<Rightarrow> Returned ())"
        by (simp add: sw2 startWallet_load_returned [OF re] then_run_def)
      with qw re have "\<exists>allTokens reg pre.
            snd (loadTokens htr (tokens_env env)) = Returned (allTokens, reg)
            \<and> quiet pre
            \<and> startWallet htr p env =
                (pre @ [Put (loadWalletSuccess allTokens), routerHistory_replace ''/wallet/'',
                        Put (loadingAddresses False), Race_start_reload]
                     @ (case parked env of
                          No_request \<Rightarrow> []
                        | Start_request \<Rightarrow> [Cancel threads]
                        | Reload_request \<Rightarrow> [Cancel threads, Put (START_WALLET_REQUESTED p)]),
                 case parked env of No_request \<Rightarrow> Blocked | Start_request \<Rightarrow> Returned ()
                   | Reload_request \<Rightarrow> Returned ())"
        by blast
      with nf rdy show ?thesis by blast
    qed
  qed
qed

lemma quiet_invalidate: "quiet (invalidate_loop htr ts)"
  by (induction ts) (simp_all add: quiet_Nil quiet_Cons)

lemma unit_call_result: "(r :: unit call_result) \<noteq> Throws \<longleftrightarrow> r = Returns ()"
  by (cases r) simp_all

lemma walletReloading_shape:
  "(\<not> useWalletService env \<and> \<not> ready_arrives env
      \<and> walletReloading htr env =
          ([Put (loadingAddresses True), Fork listenForWalletReady_saga,
            Take_WALLET_STATE_READY], Blocked))
   \<or> ((useWalletService env \<or> ready_arrives env)
      \<and> snd (loadTokens htr (reload_tokens_env env)) = Raised
      \<and> (\<exists>pre. quiet pre
            \<and> walletReloading htr env = (pre @ [Put startWalletFailed], Returned ())))
   \<or> ((useWalletService env \<or> ready_arrives env)
      \<and> (\<exists>a r. snd (loadTokens htr (reload_tokens_env env)) = Returned (a, r))
      \<and> useWalletService env \<and> getNewAddresses_result env = Throws
      \<and> (\<exists>pre. quiet pre
            \<and> walletReloading htr env = (pre @ [Put startWalletFailed], Returned ())))
   \<or> ((useWalletService env \<or> ready_arrives env)
      \<and> (\<exists>a r. snd (loadTokens htr (reload_tokens_env env)) = Returned (a, r))
      \<and> \<not> (useWalletService env \<and> getNewAddresses_result env = Throws)
      \<and> replace_result env = Throws
      \<and> (\<exists>pre. quiet pre
            \<and> walletReloading htr env = (pre @ [Put startWalletFailed], Returned ())))
   \<or> ((useWalletService env \<or> ready_arrives env)
      \<and> (\<exists>a r. snd (loadTokens htr (reload_tokens_env env)) = Returned (a, r))
      \<and> \<not> (useWalletService env \<and> getNewAddresses_result env = Throws)
      \<and> replace_result env = Returns ()
      \<and> (\<exists>pre. quiet pre
            \<and> walletReloading htr env = (pre @ [Put (loadingAddresses False)], Returned ())))"
proof (cases "useWalletService env \<or> ready_arrives env")
  case False
  then show ?thesis by (simp add: walletReloading_def)
next
  case w: True
  let ?head = "Put (loadingAddresses True)
      # (if useWalletService env then []
         else [Fork listenForWalletReady_saga, Take_WALLET_STATE_READY])"
  let ?lt = "fst (loadTokens htr (reload_tokens_env env))"
  have qh: "quiet (?head @ ?lt)"
    using quiet_loadTokens [of htr "reload_tokens_env env"]
    by (simp add: quiet_append quiet_Cons quiet_Nil)
  have wr: "walletReloading htr env = then_run ?head (walletReloading_try htr env)"
    using w by (auto simp: walletReloading_def then_run_def)
  from loadTokens_outcome [of htr "reload_tokens_env env"] show ?thesis
  proof (elim disjE exE)
    assume ra: "snd (loadTokens htr (reload_tokens_env env)) = Raised"
    have "walletReloading_try htr env = (?lt @ [Put startWalletFailed], Returned ())"
      using ra by (cases "loadTokens htr (reload_tokens_env env)")
        (simp add: walletReloading_try_def)
    then have "walletReloading htr env = ((?head @ ?lt) @ [Put startWalletFailed], Returned ())"
      by (simp add: wr then_run_def)
    with qh have "\<exists>pre. quiet pre
            \<and> walletReloading htr env = (pre @ [Put startWalletFailed], Returned ())"
      by blast
    with w ra show ?thesis by blast
  next
    fix a r
    assume re: "snd (loadTokens htr (reload_tokens_env env)) = Returned (a, r)"
    then have l: "loadTokens htr (reload_tokens_env env) = (?lt, Returned (a, r))"
      by (cases "loadTokens htr (reload_tokens_env env)") simp
    have ex: "\<exists>a r. snd (loadTokens htr (reload_tokens_env env)) = Returned (a, r)"
      using re by blast
    let ?inv = "?head @ ?lt @ invalidate_loop htr a"
    have qi: "quiet ?inv"
      using qh quiet_invalidate [of htr a]
      by (auto simp: quiet_append quiet_Cons quiet_Nil)
    note tr = walletReloading_try_success [OF l]
    show ?thesis
    proof (cases "useWalletService env \<and> getNewAddresses_result env = Throws")
      case True
      then have "walletReloading htr env =
          ((?inv @ [Call wallet_getNewAddresses]) @ [Put startWalletFailed], Returned ())"
        by (simp add: wr tr then_run_def Let_def)
      moreover have "quiet (?inv @ [Call wallet_getNewAddresses])"
        using qi by (auto simp: quiet_append quiet_Cons quiet_Nil)
      ultimately have "\<exists>pre. quiet pre
            \<and> walletReloading htr env = (pre @ [Put startWalletFailed], Returned ())"
        by blast
      with w ex True show ?thesis by blast
    next
      case ng: False
      let ?mid = "?inv @ (if useWalletService env then [Call wallet_getNewAddresses] else [])
          @ [Put walletRefreshSharedAddress, Put (loadWalletSuccess a),
             routerHistory_replace ''/wallet/'']"
      have qm: "quiet ?mid"
        using qi by (auto simp: quiet_append quiet_Cons quiet_Nil)
      have try_eq: "walletReloading_try htr env =
          then_run (?lt @ invalidate_loop htr a
                    @ (if useWalletService env then [Call wallet_getNewAddresses] else []))
            (walletReloading_finish a env)"
        using ng by (auto simp: tr Let_def then_run_def unit_call_result
            split: call_result.splits)
      show ?thesis
      proof (cases "replace_result env")
        case Throws
        have "walletReloading htr env = (?mid @ [Put startWalletFailed], Returned ())"
          by (simp add: wr try_eq then_run_def walletReloading_finish_def Throws)
        with qm have "\<exists>pre. quiet pre
            \<and> walletReloading htr env = (pre @ [Put startWalletFailed], Returned ())"
          by blast
        with w ex ng Throws show ?thesis by blast
      next
        case (Returns u)
        have "walletReloading htr env = (?mid @ [Put (loadingAddresses False)], Returned ())"
          by (simp add: wr try_eq then_run_def walletReloading_finish_def Returns)
        with qm have "\<exists>pre. quiet pre
            \<and> walletReloading htr env = (pre @ [Put (loadingAddresses False)], Returned ())"
          by blast
        moreover have "replace_result env = Returns ()"
          using Returns by simp
        ultimately show ?thesis using w ex ng by blast
      qed
    qed
  qed
qed

lemma startWallet_ignore_iff:
  "Call ignoreWalletServiceFlag \<in> set (fst (startWallet htr p env)) \<longleftrightarrow>
     start_result env = Throws \<and> startWallet_useWalletService env"
  using startWallet_shape [where env = env and htr = htr and p = p]
  by (elim disjE conjE exE) (auto simp: quiet_def split: request.splits)

lemma startWallet_not_Raised: "snd (startWallet htr p env) \<noteq> Raised"
  using startWallet_shape [where env = env and htr = htr and p = p]
  by (elim disjE conjE exE) (auto split: request.splits)

lemma startWallet_setup_prefix:
  "\<exists>rest. fst (startWallet htr p env) = startWallet_setup p env @ rest"
proof (cases "start_result env = Throws \<and> startWallet_useWalletService env")
  case True
  then show ?thesis
    using startWallet_fallback [of env htr p] by auto
next
  case False
  then show ?thesis
    using startWallet_proceeds [of env htr p] by (auto simp: then_run_def)
qed

lemma startWallet_local_backend:
  assumes "\<not> startWallet_useWalletService env"
  shows "Put (setWallet HathorWallet) \<in> set (fst (startWallet htr p env))"
proof -
  have "Put (setWallet HathorWallet) \<in> set (startWallet_setup p env)"
    using assms by (simp add: startWallet_setup_def Let_def)
  then show ?thesis
    using startWallet_setup_prefix [of htr p env] by auto
qed

text \<open>
  C2, as amended.  When the start call throws on the remote-service backend, the run
  records the "ignore remote service" decision, then cancels the thread group, then
  re-dispatches the original start request, each exactly once, and returns.  When the
  start call throws on the local backend, the exception is caught and dropped: nothing is
  recorded and the run goes on with the wait for readiness, as after a start call that
  returned.  No run of the saga ends with an exception of the start call.  Against the
  feature-flag provider, the attempt that follows a fallback resolves to the local
  backend and does not fall back again.
\<close>
theorem start_failure_fallback:
  "(start_result env = Throws \<and> startWallet_useWalletService env \<longrightarrow>
      startWallet htr p env =
        (startWallet_setup p env
         @ [Call wallet_start, Call ignoreWalletServiceFlag, Cancel threads,
            Put (START_WALLET_REQUESTED p)], Returned ())
      \<and> count_list (fst (startWallet htr p env)) (Call ignoreWalletServiceFlag) = 1
      \<and> count_list (fst (startWallet htr p env)) (Cancel threads) = 1
      \<and> count_list (fst (startWallet htr p env)) (Put (START_WALLET_REQUESTED p)) = 1)
   \<and> (start_result env = Throws \<and> \<not> startWallet_useWalletService env \<longrightarrow>
      startWallet htr p env =
        then_run (startWallet_setup p env @ [Call wallet_start]) (startWallet_wait htr p env)
      \<and> Call ignoreWalletServiceFlag \<notin> set (fst (startWallet htr p env)))
   \<and> snd (startWallet htr p env) \<noteq> Raised
   \<and> (start_attempt htr p ff env1 = (run1, ff1)
        \<and> Call ignoreWalletServiceFlag \<in> set (fst run1)
        \<and> start_attempt htr p ff1 env2 = (run2, ff2) \<longrightarrow>
      ignore_recorded ff1
      \<and> Put (setWallet HathorWallet) \<in> set (fst run2)
      \<and> Call ignoreWalletServiceFlag \<notin> set (fst run2)
      \<and> ff2 = ff1)"
proof -
  have q: "quiet (startWallet_setup p env)"
    by (rule quiet_setup)
  have c1: "start_result env = Throws \<and> startWallet_useWalletService env \<longrightarrow>
      startWallet htr p env =
        (startWallet_setup p env
         @ [Call wallet_start, Call ignoreWalletServiceFlag, Cancel threads,
            Put (START_WALLET_REQUESTED p)], Returned ())
      \<and> count_list (fst (startWallet htr p env)) (Call ignoreWalletServiceFlag) = 1
      \<and> count_list (fst (startWallet htr p env)) (Cancel threads) = 1
      \<and> count_list (fst (startWallet htr p env)) (Put (START_WALLET_REQUESTED p)) = 1"
  proof (intro impI, elim conjE)
    assume t: "start_result env = Throws" and u: "startWallet_useWalletService env"
    note eq = startWallet_fallback [OF t u, of htr p]
    have z: "count_list (startWallet_setup p env) (Call ignoreWalletServiceFlag) = 0"
      "count_list (startWallet_setup p env) (Cancel threads) = 0"
      "count_list (startWallet_setup p env) (Put (START_WALLET_REQUESTED p)) = 0"
      using q by (simp_all add: quiet_def count_list_0)
    show "startWallet htr p env =
        (startWallet_setup p env
         @ [Call wallet_start, Call ignoreWalletServiceFlag, Cancel threads,
            Put (START_WALLET_REQUESTED p)], Returned ())
      \<and> count_list (fst (startWallet htr p env)) (Call ignoreWalletServiceFlag) = 1
      \<and> count_list (fst (startWallet htr p env)) (Cancel threads) = 1
      \<and> count_list (fst (startWallet htr p env)) (Put (START_WALLET_REQUESTED p)) = 1"
      using z by (simp add: eq)
  qed
  have c2: "start_result env = Throws \<and> \<not> startWallet_useWalletService env \<longrightarrow>
      startWallet htr p env =
        then_run (startWallet_setup p env @ [Call wallet_start]) (startWallet_wait htr p env)
      \<and> Call ignoreWalletServiceFlag \<notin> set (fst (startWallet htr p env))"
    using startWallet_proceeds [of env htr p] startWallet_ignore_iff [of htr p env]
    by auto
  have c3: "snd (startWallet htr p env) \<noteq> Raised"
    by (rule startWallet_not_Raised)
  have c4: "start_attempt htr p ff env1 = (run1, ff1)
        \<and> Call ignoreWalletServiceFlag \<in> set (fst run1)
        \<and> start_attempt htr p ff1 env2 = (run2, ff2) \<longrightarrow>
      ignore_recorded ff1
      \<and> Put (setWallet HathorWallet) \<in> set (fst run2)
      \<and> Call ignoreWalletServiceFlag \<notin> set (fst run2)
      \<and> ff2 = ff1"
  proof (intro impI, elim conjE)
    assume a1: "start_attempt htr p ff env1 = (run1, ff1)"
      and ig: "Call ignoreWalletServiceFlag \<in> set (fst run1)"
      and a2: "start_attempt htr p ff1 env2 = (run2, ff2)"
    have ff1: "ff1 = ff_ignoreWalletServiceFlag ff"
      using a1 ig by (auto simp: start_attempt_def Let_def)
    then have rec: "ignore_recorded ff1"
      by (simp add: ff_ignoreWalletServiceFlag_def)
    let ?env2 = "env2\<lparr>shouldUseWalletService := ff_shouldUseWalletService ff1\<rparr>"
    have local: "\<not> startWallet_useWalletService ?env2"
      using rec by (simp add: startWallet_useWalletService_def ff_shouldUseWalletService_def)
    have run2: "run2 = startWallet htr p ?env2"
      using a2 by (auto simp: start_attempt_def Let_def)
    have noig: "Call ignoreWalletServiceFlag \<notin> set (fst run2)"
      unfolding run2 using local by (simp add: startWallet_ignore_iff)
    have loc: "Put (setWallet HathorWallet) \<in> set (fst run2)"
      unfolding run2 using local by (rule startWallet_local_backend)
    have "ff2 = ff1"
      using a2 noig run2 by (auto simp: start_attempt_def Let_def)
    with rec loc noig show "ignore_recorded ff1
      \<and> Put (setWallet HathorWallet) \<in> set (fst run2)
      \<and> Call ignoreWalletServiceFlag \<notin> set (fst run2)
      \<and> ff2 = ff1"
      by simp
  qed
  from c1 c2 c3 c4 show ?thesis by (intro conjI)
qed

text \<open>
  C3, as amended.  A start that gets the error signal while it waits for readiness, or
  whose token loader throws, emits the Failed status, cancels the thread group and
  returns, with no re-dispatch of the start request before.  A reload whose token loader
  throws emits the Failed status and returns, with no re-dispatch; no run of the reload
  handler cancels a thread group.
\<close>
theorem terminal_failures:
  "(\<not> (start_result env = Throws \<and> startWallet_useWalletService env)
      \<and> (\<not> isReady_after_start env \<and> readiness env = Error_signal
         \<or> (isReady_after_start env \<or> readiness env = Ready_signal)
            \<and> snd (loadTokens htr (tokens_env env)) = Raised) \<longrightarrow>
      (\<exists>pre. quiet pre
         \<and> startWallet htr p env =
             (pre @ [Put startWalletFailed, Cancel threads], Returned ())))
   \<and> ((useWalletService renv \<or> ready_arrives renv)
      \<and> snd (loadTokens htr (reload_tokens_env renv)) = Raised \<longrightarrow>
      (\<exists>pre. quiet pre
         \<and> walletReloading htr renv = (pre @ [Put startWalletFailed], Returned ())))
   \<and> (\<forall>ts. Cancel ts \<notin> set (fst (walletReloading htr renv)))"
proof -
  have c1: "\<not> (start_result env = Throws \<and> startWallet_useWalletService env)
      \<and> (\<not> isReady_after_start env \<and> readiness env = Error_signal
         \<or> (isReady_after_start env \<or> readiness env = Ready_signal)
            \<and> snd (loadTokens htr (tokens_env env)) = Raised) \<longrightarrow>
      (\<exists>pre. quiet pre
         \<and> startWallet htr p env =
             (pre @ [Put startWalletFailed, Cancel threads], Returned ()))"
    using startWallet_shape [where env = env and htr = htr and p = p]
    by (elim disjE conjE exE) auto
  have c2: "(useWalletService renv \<or> ready_arrives renv)
      \<and> snd (loadTokens htr (reload_tokens_env renv)) = Raised \<longrightarrow>
      (\<exists>pre. quiet pre
         \<and> walletReloading htr renv = (pre @ [Put startWalletFailed], Returned ()))"
    using walletReloading_shape [where env = renv and htr = htr]
    by (elim disjE conjE exE) auto
  have c3: "\<forall>ts. Cancel ts \<notin> set (fst (walletReloading htr renv))"
    using walletReloading_shape [where env = renv and htr = htr]
    by (elim disjE conjE exE) (auto simp: quiet_def)
  from c1 c2 c3 show ?thesis by (intro conjI)
qed

lemmas saga_defs =
  startWallet_def startWallet_setup_def startWallet_useWalletService_def
  startWallet_wait_def startWallet_load_def loadTokens_def then_run_def threads_def
  walletReloading_def walletReloading_try_def walletReloading_finish_def Let_def

text \<open>
  C2 as stated fails: on the local backend a start call that throws does not surface.
  Here the error signal follows, and the run ends by returning after the Failed status.
\<close>
theorem local_start_failure_counterexample:
  "startWallet ''00'' example_payload
     (example_env\<lparr>start_result := Throws, isReady_after_start := False,
        readiness := Error_signal\<rparr>) =
     ([Put (loadingAddresses True), Put storeRouterHistory, unlock,
       Put (reloadData example_registry), Put (isOnlineUpdate False),
       Call shouldUseWalletService_call, Put (setUseWalletService False),
       Put_dispatch_thunk, cleanLoadedData True, Put (setWallet HathorWallet),
       Fork setupWalletListeners_saga, Fork listenForWalletReady_saga,
       Fork listenForFeatureFlags_saga, Call wallet_start,
       routerHistory_replace ''/loading_addresses'', Race_ready_error,
       Put startWalletFailed, Cancel threads], Returned ())
   \<and> snd (startWallet ''00'' example_payload
        (example_env\<lparr>start_result := Throws, isReady_after_start := False,
           readiness := Error_signal\<rparr>)) \<noteq> Raised"
  by (simp add: saga_defs example_env_def example_payload_def)

text \<open>
  The theorem at a remote-service start whose start call throws, and at the attempt that
  follows it.
\<close>
theorem start_failure_fallback_witness:
  "startWallet ''00'' example_payload
     (example_env\<lparr>start_result := Throws, shouldUseWalletService := True\<rparr>) =
     ([Put (loadingAddresses True), Put storeRouterHistory, unlock,
       Put (reloadData example_registry), Put (isOnlineUpdate False),
       Call shouldUseWalletService_call, Put (setUseWalletService True),
       Put_dispatch_thunk, cleanLoadedData True, Put (setWallet HathorWalletServiceWallet),
       Fork setupWalletListeners_saga, Fork listenForWalletReady_saga,
       Fork listenForFeatureFlags_saga, Call wallet_start,
       Call ignoreWalletServiceFlag, Cancel threads,
       Put (START_WALLET_REQUESTED example_payload)], Returned ())
   \<and> count_list
        (fst (startWallet ''00'' example_payload
           (example_env\<lparr>start_result := Throws, shouldUseWalletService := True\<rparr>)))
        (Put (START_WALLET_REQUESTED example_payload)) = 1
   \<and> Call ignoreWalletServiceFlag \<notin> set (fst (startWallet ''00'' example_payload
        (example_env\<lparr>start_result := Throws\<rparr>)))
   \<and> Put (setWallet HathorWallet) \<in> set (fst (fst (start_attempt ''00'' example_payload
        \<lparr>remote_enabled = True, ignore_recorded = True\<rparr>
        (example_env\<lparr>start_result := Throws\<rparr>))))"
proof -
  let ?remote = "example_env\<lparr>start_result := Throws, shouldUseWalletService := True\<rparr>"
  let ?local = "example_env\<lparr>start_result := Throws\<rparr>"
  let ?ff = "\<lparr>remote_enabled = True, ignore_recorded = False\<rparr>"
  let ?ff1 = "\<lparr>remote_enabled = True, ignore_recorded = True\<rparr>"
  have r: "start_result ?remote = Throws \<and> startWallet_useWalletService ?remote"
    by (simp add: example_env_def startWallet_useWalletService_def)
  have l: "start_result ?local = Throws \<and> \<not> startWallet_useWalletService ?local"
    by (simp add: example_env_def startWallet_useWalletService_def)
  have a1: "start_attempt ''00'' example_payload ?ff ?local
      = (startWallet ''00'' example_payload ?remote, ?ff1)"
    by (simp add: start_attempt_def ff_shouldUseWalletService_def
        ff_ignoreWalletServiceFlag_def saga_defs example_env_def)
  have ig: "Call ignoreWalletServiceFlag
      \<in> set (fst (startWallet ''00'' example_payload ?remote))"
    by (simp add: saga_defs example_env_def)
  have a2: "start_attempt ''00'' example_payload ?ff1 ?local
      = (fst (start_attempt ''00'' example_payload ?ff1 ?local),
         snd (start_attempt ''00'' example_payload ?ff1 ?local))"
    by simp
  note f1 = start_failure_fallback [of ?remote "''00''" example_payload,
      THEN conjunct1, THEN mp, OF r]
  note p1 = f1 [THEN conjunct1]
  note p2 = f1 [THEN conjunct2, THEN conjunct2, THEN conjunct2]
  note p3 = start_failure_fallback [of ?local "''00''" example_payload,
      THEN conjunct2, THEN conjunct1, THEN mp, OF l, THEN conjunct2]
  have a: "start_attempt ''00'' example_payload ?ff ?local
        = (startWallet ''00'' example_payload ?remote, ?ff1)
      \<and> Call ignoreWalletServiceFlag
        \<in> set (fst (startWallet ''00'' example_payload ?remote))
      \<and> start_attempt ''00'' example_payload ?ff1 ?local
        = (fst (start_attempt ''00'' example_payload ?ff1 ?local),
           snd (start_attempt ''00'' example_payload ?ff1 ?local))"
    using a1 ig a2 by (intro conjI)
  note p4 = start_failure_fallback [of ?local "''00''" example_payload ?ff ?local
      "startWallet ''00'' example_payload ?remote" ?ff1 ?local
      "fst (start_attempt ''00'' example_payload ?ff1 ?local)"
      "snd (start_attempt ''00'' example_payload ?ff1 ?local)",
      THEN conjunct2, THEN conjunct2, THEN conjunct2, THEN mp, OF a,
      THEN conjunct2, THEN conjunct1]
  have p1': "startWallet ''00'' example_payload ?remote =
     ([Put (loadingAddresses True), Put storeRouterHistory, unlock,
       Put (reloadData example_registry), Put (isOnlineUpdate False),
       Call shouldUseWalletService_call, Put (setUseWalletService True),
       Put_dispatch_thunk, cleanLoadedData True, Put (setWallet HathorWalletServiceWallet),
       Fork setupWalletListeners_saga, Fork listenForWalletReady_saga,
       Fork listenForFeatureFlags_saga, Call wallet_start,
       Call ignoreWalletServiceFlag, Cancel threads,
       Put (START_WALLET_REQUESTED example_payload)], Returned ())"
    unfolding p1
    by (simp add: startWallet_setup_def startWallet_useWalletService_def Let_def
        example_env_def example_payload_def)
  from p1' p2 p3 p4 show ?thesis by (intro conjI)
qed

text \<open>
  C3 as stated fails: a reload whose token loader throws emits the Failed status and
  cancels nothing.
\<close>
theorem reload_failure_counterexample:
  "walletReloading ''00''
     (example_reload_env\<lparr>reload_tokens_env := example_tokens\<lparr>getTokens_result := Throws\<rparr>\<rparr>) =
     ([Put (loadingAddresses True), Fork listenForWalletReady_saga, Take_WALLET_STATE_READY,
       Call (fetchTokenData ''00''), Call wallet_getTokens, Put startWalletFailed],
      Returned ())
   \<and> Cancel threads \<notin> set (fst (walletReloading ''00''
        (example_reload_env\<lparr>reload_tokens_env :=
           example_tokens\<lparr>getTokens_result := Throws\<rparr>\<rparr>)))"
  by (simp add: saga_defs example_reload_env_def example_tokens_def)

text \<open>
  The theorem at a start that gets the error signal, a start whose token loader throws,
  and a reload whose token loader throws.
\<close>
theorem terminal_failures_witness:
  "(\<exists>pre. quiet pre
      \<and> startWallet ''00'' example_payload
           (example_env\<lparr>isReady_after_start := False, readiness := Error_signal\<rparr>) =
          (pre @ [Put startWalletFailed, Cancel threads], Returned ()))
   \<and> (\<exists>pre. quiet pre
      \<and> startWallet ''00'' example_payload
           (example_env\<lparr>tokens_env := example_tokens\<lparr>fetchTokenData_result := Throws\<rparr>\<rparr>) =
          (pre @ [Put startWalletFailed, Cancel threads], Returned ()))
   \<and> (\<exists>pre. quiet pre
      \<and> walletReloading ''00''
           (example_reload_env\<lparr>reload_tokens_env :=
              example_tokens\<lparr>getTokens_result := Throws\<rparr>\<rparr>) =
          (pre @ [Put startWalletFailed], Returned ()))"
proof -
  let ?e1 = "example_env\<lparr>isReady_after_start := False, readiness := Error_signal\<rparr>"
  let ?e2 = "example_env\<lparr>tokens_env := example_tokens\<lparr>fetchTokenData_result := Throws\<rparr>\<rparr>"
  let ?r = "example_reload_env\<lparr>reload_tokens_env :=
              example_tokens\<lparr>getTokens_result := Throws\<rparr>\<rparr>"
  have h1: "\<not> (start_result ?e1 = Throws \<and> startWallet_useWalletService ?e1)
      \<and> (\<not> isReady_after_start ?e1 \<and> readiness ?e1 = Error_signal
         \<or> (isReady_after_start ?e1 \<or> readiness ?e1 = Ready_signal)
            \<and> snd (loadTokens ''00'' (tokens_env ?e1)) = Raised)"
    by (simp add: example_env_def)
  have h2: "\<not> (start_result ?e2 = Throws \<and> startWallet_useWalletService ?e2)
      \<and> (\<not> isReady_after_start ?e2 \<and> readiness ?e2 = Error_signal
         \<or> (isReady_after_start ?e2 \<or> readiness ?e2 = Ready_signal)
            \<and> snd (loadTokens ''00'' (tokens_env ?e2)) = Raised)"
    by (simp add: example_env_def example_tokens_def loadTokens_def)
  have h3: "(useWalletService ?r \<or> ready_arrives ?r)
      \<and> snd (loadTokens ''00'' (reload_tokens_env ?r)) = Raised"
    by (simp add: example_reload_env_def example_tokens_def loadTokens_def)
  from terminal_failures [of ?e1 "''00''" example_payload ?r] h1 h3
  have w1: "\<exists>pre. quiet pre
      \<and> startWallet ''00'' example_payload ?e1 =
          (pre @ [Put startWalletFailed, Cancel threads], Returned ())"
    and w3: "\<exists>pre. quiet pre
      \<and> walletReloading ''00'' ?r = (pre @ [Put startWalletFailed], Returned ())"
    by blast+
  from terminal_failures [of ?e2 "''00''" example_payload ?r] h2
  have w2: "\<exists>pre. quiet pre
      \<and> startWallet ''00'' example_payload ?e2 =
          (pre @ [Put startWalletFailed, Cancel threads], Returned ())"
    by blast
  from w1 w2 w3 show ?thesis by (intro conjI)
qed

text \<open>
  C10.  Every start and every reload begins by setting the loading flag.  A start clears
  it exactly when it does not fall back, the wallet is or becomes ready, and the token
  loader returns; a reload clears it exactly when it gets past its wait, the token loader
  returns and neither the address refresh nor the navigation throws.  A run emits the
  Failed status exactly on the failing paths, and a run that emits it never clears the
  flag: the Failed status is the last message of the run, emitted once, after which the
  handler returns (a start also cancels its thread group).
\<close>
theorem loading_flag_cleared_only_on_success:
  "(\<exists>rest. fst (startWallet htr p env) = Put (loadingAddresses True) # rest)
   \<and> (\<exists>rest. fst (walletReloading htr renv) = Put (loadingAddresses True) # rest)
   \<and> (Put (loadingAddresses False) \<in> set (fst (startWallet htr p env)) \<longleftrightarrow>
        \<not> (start_result env = Throws \<and> startWallet_useWalletService env)
        \<and> (isReady_after_start env \<or> readiness env = Ready_signal)
        \<and> (\<exists>r. snd (loadTokens htr (tokens_env env)) = Returned r))
   \<and> (Put (loadingAddresses False) \<in> set (fst (walletReloading htr renv)) \<longleftrightarrow>
        (useWalletService renv \<or> ready_arrives renv)
        \<and> (\<exists>r. snd (loadTokens htr (reload_tokens_env renv)) = Returned r)
        \<and> \<not> (useWalletService renv \<and> getNewAddresses_result renv = Throws)
        \<and> replace_result renv = Returns ())
   \<and> (Put startWalletFailed \<in> set (fst (startWallet htr p env)) \<longleftrightarrow>
        \<not> (start_result env = Throws \<and> startWallet_useWalletService env)
        \<and> (\<not> isReady_after_start env \<and> readiness env = Error_signal
           \<or> (isReady_after_start env \<or> readiness env = Ready_signal)
              \<and> snd (loadTokens htr (tokens_env env)) = Raised))
   \<and> (Put startWalletFailed \<in> set (fst (walletReloading htr renv)) \<longleftrightarrow>
        (useWalletService renv \<or> ready_arrives renv)
        \<and> (snd (loadTokens htr (reload_tokens_env renv)) = Raised
           \<or> useWalletService renv \<and> getNewAddresses_result renv = Throws
           \<or> replace_result renv = Throws))
   \<and> (Put startWalletFailed \<in> set (fst (startWallet htr p env)) \<longrightarrow>
        Put (loadingAddresses False) \<notin> set (fst (startWallet htr p env))
        \<and> (\<exists>pre. startWallet htr p env =
                    (pre @ [Put startWalletFailed, Cancel threads], Returned ())
                  \<and> Put startWalletFailed \<notin> set pre))
   \<and> (Put startWalletFailed \<in> set (fst (walletReloading htr renv)) \<longrightarrow>
        Put (loadingAddresses False) \<notin> set (fst (walletReloading htr renv))
        \<and> (\<exists>pre. walletReloading htr renv = (pre @ [Put startWalletFailed], Returned ())
                  \<and> Put startWalletFailed \<notin> set pre))"
proof -
  note sw = startWallet_shape [where env = env and htr = htr and p = p]
  note wr = walletReloading_shape [where env = renv and htr = htr]
  have c1: "\<exists>rest. fst (startWallet htr p env) = Put (loadingAddresses True) # rest"
  proof (cases "start_result env = Throws \<and> startWallet_useWalletService env")
    case True
    then show ?thesis
      using startWallet_fallback [of env htr p] setup_hd [of p env] by auto
  next
    case False
    then show ?thesis
      using startWallet_proceeds [of env htr p] setup_hd [of p env]
      by (auto simp: then_run_def)
  qed
  have c2: "\<exists>rest. fst (walletReloading htr renv) = Put (loadingAddresses True) # rest"
    by (simp add: walletReloading_def then_run_def)
  have c3: "Put (loadingAddresses False) \<in> set (fst (startWallet htr p env)) \<longleftrightarrow>
        \<not> (start_result env = Throws \<and> startWallet_useWalletService env)
        \<and> (isReady_after_start env \<or> readiness env = Ready_signal)
        \<and> (\<exists>r. snd (loadTokens htr (tokens_env env)) = Returned r)"
    using sw
    by (elim disjE conjE exE) (auto simp: quiet_def threads_def dest: setup_effects)
  have c4: "Put (loadingAddresses False) \<in> set (fst (walletReloading htr renv)) \<longleftrightarrow>
        (useWalletService renv \<or> ready_arrives renv)
        \<and> (\<exists>r. snd (loadTokens htr (reload_tokens_env renv)) = Returned r)
        \<and> \<not> (useWalletService renv \<and> getNewAddresses_result renv = Throws)
        \<and> replace_result renv = Returns ()"
    using wr
    by (elim disjE conjE exE) (auto simp: quiet_def)
  have c5: "Put startWalletFailed \<in> set (fst (startWallet htr p env)) \<longleftrightarrow>
        \<not> (start_result env = Throws \<and> startWallet_useWalletService env)
        \<and> (\<not> isReady_after_start env \<and> readiness env = Error_signal
           \<or> (isReady_after_start env \<or> readiness env = Ready_signal)
              \<and> snd (loadTokens htr (tokens_env env)) = Raised)"
    using sw
    by (elim disjE conjE exE)
       (auto simp: quiet_def threads_def dest: setup_effects split: request.splits)
  have c6: "Put startWalletFailed \<in> set (fst (walletReloading htr renv)) \<longleftrightarrow>
        (useWalletService renv \<or> ready_arrives renv)
        \<and> (snd (loadTokens htr (reload_tokens_env renv)) = Raised
           \<or> useWalletService renv \<and> getNewAddresses_result renv = Throws
           \<or> replace_result renv = Throws)"
    using wr
    by (elim disjE conjE exE) (auto simp: quiet_def)
  have c7: "Put startWalletFailed \<in> set (fst (startWallet htr p env)) \<longrightarrow>
        Put (loadingAddresses False) \<notin> set (fst (startWallet htr p env))
        \<and> (\<exists>pre. startWallet htr p env =
                    (pre @ [Put startWalletFailed, Cancel threads], Returned ())
                  \<and> Put startWalletFailed \<notin> set pre)"
    using sw
    by (elim disjE conjE exE)
       (auto simp: quiet_def threads_def dest: setup_effects split: request.splits)
  have c8: "Put startWalletFailed \<in> set (fst (walletReloading htr renv)) \<longrightarrow>
        Put (loadingAddresses False) \<notin> set (fst (walletReloading htr renv))
        \<and> (\<exists>pre. walletReloading htr renv = (pre @ [Put startWalletFailed], Returned ())
                  \<and> Put startWalletFailed \<notin> set pre)"
    using wr
    by (elim disjE conjE exE) (auto simp: quiet_def)
  from c1 c2 c3 c4 c5 c6 c7 c8 show ?thesis by (intro conjI)
qed

text \<open>
  The theorem at a reload over the tokens 00, X and Y, on the local backend and on the
  remote-service backend.
\<close>
theorem walletReloading_cycle_witness:
  "walletReloading ''00'' example_reload_env =
     ([Put (loadingAddresses True), Fork listenForWalletReady_saga, Take_WALLET_STATE_READY,
       Call (fetchTokenData ''00''), Call wallet_getTokens, Spawn_fetchTokensMetadata [''X''],
       Put (tokenFetchBalanceRequested ''00'' False),
       Put (tokenFetchBalanceRequested ''X'' False),
       Put (tokenFetchBalanceRequested ''Y'' False),
       Put (tokenInvalidateHistory ''X''), Put (tokenInvalidateHistory ''Y''),
       Put walletRefreshSharedAddress, Put (loadWalletSuccess [''00'', ''X'', ''Y'']),
       routerHistory_replace ''/wallet/'', Put (loadingAddresses False)], Returned ())
   \<and> count_list (fst (walletReloading ''00'' example_reload_env))
        (Put (tokenInvalidateHistory ''00'')) = 0
   \<and> count_list (fst (walletReloading ''00'' example_reload_env))
        (Put (tokenInvalidateHistory ''X'')) = 1
   \<and> walletReloading ''00''
        (example_reload_env\<lparr>useWalletService := True, ready_arrives := False\<rparr>) =
     ([Put (loadingAddresses True),
       Call (fetchTokenData ''00''), Call wallet_getTokens, Spawn_fetchTokensMetadata [''X''],
       Put (tokenFetchBalanceRequested ''00'' False),
       Put (tokenFetchBalanceRequested ''X'' False),
       Put (tokenFetchBalanceRequested ''Y'' False),
       Put (tokenInvalidateHistory ''X''), Put (tokenInvalidateHistory ''Y''),
       Call wallet_getNewAddresses,
       Put walletRefreshSharedAddress, Put (loadWalletSuccess [''00'', ''X'', ''Y'']),
       routerHistory_replace ''/wallet/'', Put (loadingAddresses False)], Returned ())"
proof -
  let ?lt = "[Call (fetchTokenData ''00''), Call wallet_getTokens,
       Spawn_fetchTokensMetadata [''X''],
       Put (tokenFetchBalanceRequested ''00'' False),
       Put (tokenFetchBalanceRequested ''X'' False),
       Put (tokenFetchBalanceRequested ''Y'' False)]"
  let ?all = "[''00'', ''X'', ''Y'']"
  let ?remote = "example_reload_env\<lparr>useWalletService := True, ready_arrives := False\<rparr>"
  have l: "loadTokens ''00'' example_tokens = (?lt, Returned (?all, [''X'']))"
    by (simp add: loadTokens_def example_tokens_def example_registry_def Let_def)
  have h1: "(useWalletService example_reload_env \<or> ready_arrives example_reload_env)
      \<and> loadTokens ''00'' (reload_tokens_env example_reload_env)
          = (?lt, Returned (?all, [''X'']))"
    using l by (simp add: example_reload_env_def)
  have h2: "(useWalletService ?remote \<or> ready_arrives ?remote)
      \<and> loadTokens ''00'' (reload_tokens_env ?remote) = (?lt, Returned (?all, [''X'']))"
    using l by (simp add: example_reload_env_def)
  note on_local = walletReloading_cycle [of "''00''" example_reload_env ?lt ?all "[''X'']",
      THEN conjunct2, THEN conjunct2, THEN conjunct2, THEN conjunct2, THEN mp, OF h1]
  note on_remote = walletReloading_cycle [of "''00''" ?remote ?lt ?all "[''X'']",
      THEN conjunct2, THEN conjunct2, THEN conjunct2, THEN conjunct2, THEN mp, OF h2]
  have w1: "walletReloading ''00'' example_reload_env =
     ([Put (loadingAddresses True), Fork listenForWalletReady_saga, Take_WALLET_STATE_READY,
       Call (fetchTokenData ''00''), Call wallet_getTokens, Spawn_fetchTokensMetadata [''X''],
       Put (tokenFetchBalanceRequested ''00'' False),
       Put (tokenFetchBalanceRequested ''X'' False),
       Put (tokenFetchBalanceRequested ''Y'' False),
       Put (tokenInvalidateHistory ''X''), Put (tokenInvalidateHistory ''Y''),
       Put walletRefreshSharedAddress, Put (loadWalletSuccess [''00'', ''X'', ''Y'']),
       routerHistory_replace ''/wallet/'', Put (loadingAddresses False)], Returned ())"
    using on_local by (simp add: example_reload_env_def)
  have w2: "count_list (fst (walletReloading ''00'' example_reload_env))
        (Put (tokenInvalidateHistory ''00'')) = 0"
    using on_local by (rule conjunct1)
  have w3: "count_list (fst (walletReloading ''00'' example_reload_env))
        (Put (tokenInvalidateHistory ''X'')) = 1"
    using on_local [THEN conjunct2, THEN conjunct2, THEN conjunct1] by simp
  have w4: "walletReloading ''00'' ?remote =
     ([Put (loadingAddresses True),
       Call (fetchTokenData ''00''), Call wallet_getTokens, Spawn_fetchTokensMetadata [''X''],
       Put (tokenFetchBalanceRequested ''00'' False),
       Put (tokenFetchBalanceRequested ''X'' False),
       Put (tokenFetchBalanceRequested ''Y'' False),
       Put (tokenInvalidateHistory ''X''), Put (tokenInvalidateHistory ''Y''),
       Call wallet_getNewAddresses,
       Put walletRefreshSharedAddress, Put (loadWalletSuccess [''00'', ''X'', ''Y'']),
       routerHistory_replace ''/wallet/'', Put (loadingAddresses False)], Returned ())"
    using on_remote by (simp add: example_reload_env_def)
  from w1 w2 w3 w4 show ?thesis by (intro conjI)
qed

text \<open>
  The theorem at a start that gets the error signal and at a reload whose navigation
  throws, next to the successful start and reload.
\<close>
theorem loading_flag_cleared_only_on_success_witness:
  "Put startWalletFailed \<in> set (fst (startWallet ''00'' example_payload
       (example_env\<lparr>isReady_after_start := False, readiness := Error_signal\<rparr>)))
   \<and> Put (loadingAddresses False) \<notin> set (fst (startWallet ''00'' example_payload
       (example_env\<lparr>isReady_after_start := False, readiness := Error_signal\<rparr>)))
   \<and> Put startWalletFailed \<in> set (fst (walletReloading ''00''
       (example_reload_env\<lparr>replace_result := Throws\<rparr>)))
   \<and> Put (loadingAddresses False) \<notin> set (fst (walletReloading ''00''
       (example_reload_env\<lparr>replace_result := Throws\<rparr>)))
   \<and> Put (loadingAddresses False) \<in> set (fst (startWallet ''00'' example_payload example_env))
   \<and> Put (loadingAddresses False) \<in> set (fst (walletReloading ''00'' example_reload_env))"
proof -
  let ?e = "example_env\<lparr>isReady_after_start := False, readiness := Error_signal\<rparr>"
  let ?r = "example_reload_env\<lparr>replace_result := Throws\<rparr>"
  have f1: "Put startWalletFailed \<in> set (fst (startWallet ''00'' example_payload ?e))"
    by (simp add: saga_defs example_env_def)
  have f2: "Put startWalletFailed \<in> set (fst (walletReloading ''00'' ?r))"
    by (simp add: saga_defs example_reload_env_def example_tokens_def)
  note flag = loading_flag_cleared_only_on_success [of "''00''" example_payload ?e ?r]
  note s = flag [THEN conjunct2, THEN conjunct2, THEN conjunct2, THEN conjunct2,
      THEN conjunct2, THEN conjunct2, THEN conjunct1, THEN mp, OF f1, THEN conjunct1]
  note r = flag [THEN conjunct2, THEN conjunct2, THEN conjunct2, THEN conjunct2,
      THEN conjunct2, THEN conjunct2, THEN conjunct2, THEN mp, OF f2, THEN conjunct1]
  have ok1: "Put (loadingAddresses False)
      \<in> set (fst (startWallet ''00'' example_payload example_env))"
    by (simp add: saga_defs example_env_def example_tokens_def)
  have ok2: "Put (loadingAddresses False)
      \<in> set (fst (walletReloading ''00'' example_reload_env))"
    by (simp add: saga_defs example_reload_env_def example_tokens_def)
  from f1 s f2 r ok1 ok2 show ?thesis by (intro conjI)
qed

subsection \<open>Listeners after cancellation\<close>

lemma removeListener_absent:
  "(em, ev, f) \<notin> set (listeners w) \<Longrightarrow> removeListener em ev f w = w"
  by (simp add: removeListener_def remove1_idem)

lemma well_formed_fresh:
  "well_formed w \<Longrightarrow> next_fn w \<le> n \<Longrightarrow> (em, ev, n) \<notin> set (listeners w)"
  by (auto simp: well_formed_def list_all_iff)

lemma fork_group_eq:
  "fork_group ev w =
     ([\<lparr>chan = \<lparr>closed = False,
                unsubscribe =
                  [(Conn, ''best-block-update'', next_fn w),
                   (Conn, ''wallet-load-partial-update'', next_fn w),
                   (Conn, ''state'', next_fn w),
                   (Wallet, ''reload-data'', next_fn w),
                   (Wallet, ''update-tx'', next_fn w),
                   (Wallet, ''new-tx'', next_fn w)]\<rparr>,
        running = True,
        installed =
          [(Conn, ''best-block-update'', next_fn w + 1),
           (Conn, ''wallet-load-partial-update'', next_fn w + 2),
           (Conn, ''state'', next_fn w + 3),
           (Wallet, ''reload-data'', next_fn w + 4),
           (Wallet, ''update-tx'', next_fn w + 5),
           (Wallet, ''new-tx'', next_fn w + 6)]\<rparr>,
       \<lparr>chan = \<lparr>closed = False, unsubscribe = [(Wallet, ''state'', next_fn w + 7)]\<rparr>,
        running = True,
        installed = [(Wallet, ''state'', next_fn w + 8)]\<rparr>,
       \<lparr>chan = \<lparr>closed = False,
                unsubscribe = [(FeatureFlags, ''wallet-service-enabled'', next_fn w + 9)]\<rparr>,
        running = True,
        installed = [(FeatureFlags, ev, next_fn w + 10)]\<rparr>],
      w\<lparr>listeners := listeners w @
          [(Conn, ''best-block-update'', next_fn w + 1),
           (Conn, ''wallet-load-partial-update'', next_fn w + 2),
           (Conn, ''state'', next_fn w + 3),
           (Wallet, ''reload-data'', next_fn w + 4),
           (Wallet, ''update-tx'', next_fn w + 5),
           (Wallet, ''new-tx'', next_fn w + 6),
           (Wallet, ''state'', next_fn w + 8),
           (FeatureFlags, ev, next_fn w + 10)],
        next_fn := next_fn w + 11\<rparr>)"
  by (simp add: fork_group_def setupWalletListeners_fork_def listenForWalletReady_fork_def
      listenForFeatureFlags_fork_def new_function_def emitter_on_def Let_def)


lemma unsubscribe_absent:
  "list_all (\<lambda>r. r \<notin> set (listeners w)) rs \<Longrightarrow>
   foldl (\<lambda>w (em, ev, f). removeListener em ev f w) w rs = w"
  by (induction rs) (auto simp: removeListener_absent)

lemma channel_close_absent:
  "list_all (\<lambda>r. r \<notin> set (listeners w)) (unsubscribe ch) \<Longrightarrow>
   channel_close ch w = (ch\<lparr>closed := True\<rparr>, w)"
  by (simp add: channel_close_def unsubscribe_absent)

lemma cancel_task_absent:
  "list_all (\<lambda>r. r \<notin> set (listeners w)) (unsubscribe (chan t)) \<Longrightarrow>
   snd (cancel_task t w) = w"
  by (simp add: cancel_task_def channel_close_absent)

lemma cancel_group_absent:
  "list_all (\<lambda>t. list_all (\<lambda>r. r \<notin> set (listeners w)) (unsubscribe (chan t))) ts \<Longrightarrow>
   snd (cancel_group ts w) = w"
proof (induction ts)
  case Nil
  show ?case by simp
next
  case (Cons t ts)
  then have t: "snd (cancel_task t w) = w" and ts: "snd (cancel_group ts w) = w"
    by (simp_all add: cancel_task_absent)
  obtain t' where t': "cancel_task t w = (t', w)"
    using t by (cases "cancel_task t w") simp
  obtain ts' where ts': "cancel_group ts w = (ts', w)"
    using ts by (cases "cancel_group ts w") simp
  show ?case by (simp add: t' ts')
qed

lemma cancel_task_stops: "\<not> running (fst (cancel_task t w))"
  by (simp add: cancel_task_def split: prod.splits)

lemma cancel_group_stops: "list_all (\<lambda>t. \<not> running t) (fst (cancel_group ts w))"
proof (induction ts arbitrary: w)
  case Nil
  show ?case by simp
next
  case (Cons t ts)
  obtain t' w' where t': "cancel_task t w = (t', w')"
    by (cases "cancel_task t w")
  obtain ts' w'' where ts': "cancel_group ts w' = (ts', w'')"
    by (cases "cancel_group ts w'")
  have "\<not> running t'"
    using cancel_task_stops [of t w] t' by simp
  moreover have "list_all (\<lambda>t. \<not> running t) ts'"
    using Cons.IH [of w'] ts' by simp
  ultimately show ?case by (simp add: t' ts')
qed

lemma cancel_group_stopped:
  "list_all (\<lambda>t. \<not> running t) ts \<Longrightarrow> cancel_group ts w = (ts, w)"
  by (induction ts) (simp_all add: cancel_task_def)

lemma cancel_group_twice:
  "cancel_group (fst (cancel_group ts w)) (snd (cancel_group ts w)) = cancel_group ts w"
  using cancel_group_stopped [OF cancel_group_stops [of ts w], of "snd (cancel_group ts w)"]
  by simp

text \<open>
  C1 asks that cancelling the thread group removes every listener its tasks installed.
  The code does not do that.  From any world whose registered functions were all created
  before, forking the three tasks registers their eight arrow functions, and cancelling
  the group leaves every one of them registered: each cleanup removes \<open>listener\<close>, a
  function that was never registered, so it removes nothing.  Cancelling a second time
  changes nothing, as the claim says.
\<close>
theorem cancel_keeps_installed_listeners:
  "well_formed w \<longrightarrow>
     listeners (snd (fork_group ev w))
       = listeners w @ concat (map installed (fst (fork_group ev w)))
     \<and> concat (map installed (fst (fork_group ev w))) \<noteq> []
     \<and> listeners (snd (cancel_group (fst (fork_group ev w)) (snd (fork_group ev w))))
       = listeners (snd (fork_group ev w))
     \<and> cancel_group (fst (cancel_group (fst (fork_group ev w)) (snd (fork_group ev w))))
         (snd (cancel_group (fst (fork_group ev w)) (snd (fork_group ev w))))
       = cancel_group (fst (fork_group ev w)) (snd (fork_group ev w))"
proof
  assume wf: "well_formed w"
  have fresh: "(em, e, next_fn w + k) \<notin> set (listeners w)" for em e k
    using wf by (rule well_formed_fresh) simp
  have fresh0: "(em, e, next_fn w) \<notin> set (listeners w)" for em e
    using wf by (rule well_formed_fresh) simp
  have a: "listeners (snd (fork_group ev w))
       = listeners w @ concat (map installed (fst (fork_group ev w)))"
    by (simp add: fork_group_eq)
  have b: "concat (map installed (fst (fork_group ev w))) \<noteq> []"
    by (simp add: fork_group_eq)
  have "snd (cancel_group (fst (fork_group ev w)) (snd (fork_group ev w)))
       = snd (fork_group ev w)"
    by (rule cancel_group_absent) (simp add: fork_group_eq fresh fresh0)
  then have c: "listeners (snd (cancel_group (fst (fork_group ev w)) (snd (fork_group ev w))))
       = listeners (snd (fork_group ev w))"
    by simp
  note d = cancel_group_twice [of "fst (fork_group ev w)" "snd (fork_group ev w)"]
  from a b c d show "listeners (snd (fork_group ev w))
       = listeners w @ concat (map installed (fst (fork_group ev w)))
     \<and> concat (map installed (fst (fork_group ev w))) \<noteq> []
     \<and> listeners (snd (cancel_group (fst (fork_group ev w)) (snd (fork_group ev w))))
       = listeners (snd (fork_group ev w))
     \<and> cancel_group (fst (cancel_group (fst (fork_group ev w)) (snd (fork_group ev w))))
         (snd (cancel_group (fst (fork_group ev w)) (snd (fork_group ev w))))
       = cancel_group (fst (fork_group ev w)) (snd (fork_group ev w))"
    by (intro conjI)
qed

text \<open>
  The theorem from the empty world: the eight registrations made by the forks are all
  there after the group is cancelled.
\<close>
theorem cancel_keeps_installed_listeners_witness:
  "well_formed \<lparr>listeners = [], next_fn = 0\<rparr>
   \<and> listeners (snd (fork_group ''wallet-service-enabled'' \<lparr>listeners = [], next_fn = 0\<rparr>)) =
       [(Conn, ''best-block-update'', 1), (Conn, ''wallet-load-partial-update'', 2),
        (Conn, ''state'', 3), (Wallet, ''reload-data'', 4), (Wallet, ''update-tx'', 5),
        (Wallet, ''new-tx'', 6), (Wallet, ''state'', 8),
        (FeatureFlags, ''wallet-service-enabled'', 10)]
   \<and> listeners (snd (cancel_group
         (fst (fork_group ''wallet-service-enabled'' \<lparr>listeners = [], next_fn = 0\<rparr>))
         (snd (fork_group ''wallet-service-enabled'' \<lparr>listeners = [], next_fn = 0\<rparr>)))) =
       [(Conn, ''best-block-update'', 1), (Conn, ''wallet-load-partial-update'', 2),
        (Conn, ''state'', 3), (Wallet, ''reload-data'', 4), (Wallet, ''update-tx'', 5),
        (Wallet, ''new-tx'', 6), (Wallet, ''state'', 8),
        (FeatureFlags, ''wallet-service-enabled'', 10)]"
proof -
  let ?w = "\<lparr>listeners = [], next_fn = 0\<rparr>"
  have wf: "well_formed ?w"
    by (simp add: well_formed_def)
  have l: "listeners (snd (fork_group ''wallet-service-enabled'' ?w)) =
       [(Conn, ''best-block-update'', 1), (Conn, ''wallet-load-partial-update'', 2),
        (Conn, ''state'', 3), (Wallet, ''reload-data'', 4), (Wallet, ''update-tx'', 5),
        (Wallet, ''new-tx'', 6), (Wallet, ''state'', 8),
        (FeatureFlags, ''wallet-service-enabled'', 10)]"
    by (simp add: fork_group_eq)
  note k = cancel_keeps_installed_listeners [of ?w "''wallet-service-enabled''",
      THEN mp, OF wf, THEN conjunct2, THEN conjunct2, THEN conjunct1]
  from wf l k [unfolded l] show ?thesis by (intro conjI)
qed

end
